theory Spec2Isabelle
  imports
    Complex_Main
    "HOL-Library.AList"
    "HOL-Library.Char_ord"
    "HOL-Library.List_Lexorder"
    "HOL-Library.Product_Lexorder"
begin

section \<open>Data model of the alert plugin (plugins/alert.py)\<close>

datatype py_error =
    KeyError
  | TypeError
  | ZeroDivisionError
  | UnavailableException
  | CallError string

text \<open>
  A Python \<open>datetime\<close>: the wall-clock reading in microseconds and, for an aware value,
  the UTC offset of its \<open>tzinfo\<close> in microseconds. \<open>tzinfo = None\<close> is a naive value.
\<close>

record pydatetime =
  wall :: int
  tzinfo :: "int option"

text \<open>\<open>d.astimezone(timezone.utc)\<close> and \<open>d.replace(tzinfo=None)\<close>.\<close>

definition astimezone_utc :: "pydatetime \<Rightarrow> pydatetime" where
  "astimezone_utc d =
     (case tzinfo d of
        None \<Rightarrow> d
      | Some off \<Rightarrow> \<lparr>wall = wall d - off, tzinfo = Some 0\<rparr>)"

definition replace_tzinfo_None :: "pydatetime \<Rightarrow> pydatetime" where
  "replace_tzinfo_None d = d\<lparr>tzinfo := None\<rparr>"

text \<open>\<open>d.date()\<close> as a day number and \<open>d.hour\<close>, read off the wall clock.\<close>

definition date_of :: "pydatetime \<Rightarrow> int" where
  "date_of d = wall d div 86400000000"

definition hour_of :: "pydatetime \<Rightarrow> int" where
  "hour_of d = (wall d mod 86400000000) div 3600000000"

text \<open>
  An alert class. \<open>AlertLevel\<close> is declared in \<open>middlewared.alert.base\<close>; a level is
  represented by the integer \<open>.value\<close> of the enumeration member, which is all the
  plugin compares. \<open>is_one_shot\<close> is \<open>issubclass(klass, OneShotAlertClass)\<close>,
  \<open>expires_after\<close> a duration in microseconds.
\<close>

record AlertClass =
  name :: string
  title :: string
  level :: int
  products :: "string list"
  exclude_from_list :: bool
  is_one_shot :: bool
  deleted_automatically :: bool
  expires_after :: "int option"
  proactive_support :: bool
  proactive_support_notify_gone :: bool

text \<open>
  An alert. The fields that Python leaves \<open>None\<close> until reconciliation are options.
\<close>

record Alert =
  uuid :: "string option"
  source :: "string option"
  klass :: AlertClass
  args :: "(string \<times> string) list"
  node :: "string option"
  key :: string
  datetime :: "pydatetime option"
  last_occurrence :: "pydatetime option"
  dismissed :: "bool option"
  mail :: "string option"

text \<open>
  One entry of \<open>alertclasses.config()["classes"]\<close>: the per-deployment overrides of a
  class. The configuration is a dictionary from class names to such entries.
\<close>

record ClassConfig =
  cfg_level :: "int option"
  cfg_policy :: "string option"
  cfg_proactive_support :: "bool option"

definition POLICIES :: "string list" where
  "POLICIES = [''IMMEDIATELY'', ''HOURLY'', ''DAILY'', ''NEVER'']"

definition DEFAULT_POLICY :: string where
  "DEFAULT_POLICY = ''IMMEDIATELY''"

definition get_alert_level :: "Alert \<Rightarrow> (string \<rightharpoonup> ClassConfig) \<Rightarrow> int" where
  "get_alert_level alert classes =
     (case classes (name (klass alert)) of
        None \<Rightarrow> level (klass alert)
      | Some c \<Rightarrow> (case cfg_level c of None \<Rightarrow> level (klass alert) | Some l \<Rightarrow> l))"

definition get_alert_policy :: "Alert \<Rightarrow> (string \<rightharpoonup> ClassConfig) \<Rightarrow> string" where
  "get_alert_policy alert classes =
     (case classes (name (klass alert)) of
        None \<Rightarrow> DEFAULT_POLICY
      | Some c \<Rightarrow> (case cfg_policy c of None \<Rightarrow> DEFAULT_POLICY | Some p \<Rightarrow> p))"

section \<open>\<open>AlertPolicy\<close>\<close>

text \<open>
  \<open>bucket_key\<close> is the \<open>key\<close> function of the policy (the field is renamed because an
  alert has a \<open>key\<close> too); it returns \<open>None\<close> where the Python function does.
  \<open>last_key_value_alerts\<close> is a dictionary from uuids to alerts, kept as an association
  list in insertion order.
\<close>

record ('t, 'k) AlertPolicy =
  bucket_key :: "'t \<Rightarrow> 'k option"
  last_key_value :: "'k option"
  last_key_value_alerts :: "(string option \<times> Alert) list"

definition AlertPolicy_init :: "('t \<Rightarrow> 'k option) \<Rightarrow> ('t, 'k) AlertPolicy" where
  "AlertPolicy_init k =
     \<lparr>bucket_key = k, last_key_value = None, last_key_value_alerts = []\<rparr>"

text \<open>\<open>{alert.uuid: alert for alert in alerts}\<close>\<close>

definition alerts_by_uuid :: "Alert list \<Rightarrow> (string option \<times> Alert) list" where
  "alerts_by_uuid xs = foldl (\<lambda>d a. AList.update (uuid a) a d) [] xs"

definition receive_alerts ::
  "('t, 'k) AlertPolicy \<Rightarrow> 't \<Rightarrow> Alert list \<Rightarrow>
     (Alert list \<times> Alert list) \<times> ('t, 'k) AlertPolicy" where
  "receive_alerts self now alerts0 =
     (let current = alerts_by_uuid alerts0;
          k = bucket_key self now
      in if k \<noteq> last_key_value self then
           ((filter (\<lambda>a. uuid a \<notin> set (map fst current))
               (map snd (last_key_value_alerts self)),
             filter (\<lambda>a. uuid a \<notin> set (map fst (last_key_value_alerts self)))
               (map snd current)),
            self\<lparr>last_key_value := k, last_key_value_alerts := current\<rparr>)
         else (([], []), self))"

definition delete_alert :: "('t, 'k) AlertPolicy \<Rightarrow> Alert \<Rightarrow> ('t, 'k) AlertPolicy" where
  "delete_alert self alert =
     self\<lparr>last_key_value_alerts := AList.delete (uuid alert) (last_key_value_alerts self)\<rparr>"

text \<open>
  The bucket keys of the four policies of \<open>AlertService.initialize\<close>: the instant itself,
  \<open>(d.date(), d.hour)\<close>, \<open>d.date()\<close>, and \<open>None\<close>.
\<close>

datatype bucket = Instant pydatetime | Hour int int | Day int

definition initial_policies :: "(string \<times> (pydatetime, bucket) AlertPolicy) list" where
  "initial_policies =
     [(''IMMEDIATELY'', AlertPolicy_init (\<lambda>now. Some (Instant now))),
      (''HOURLY'', AlertPolicy_init (\<lambda>d. Some (Hour (date_of d) (hour_of d)))),
      (''DAILY'', AlertPolicy_init (\<lambda>d. Some (Day (date_of d)))),
      (''NEVER'', AlertPolicy_init (\<lambda>d. None))]"

section \<open>State of the service and its environment\<close>

datatype effect =
    LogError string
  | LogInfo string
  | LogDebug string
  | LogTrace string
  | Send string "Alert list" "Alert list" "Alert list"
  | Event string "string option"
  | MailSend string
  | SupportTicket "Alert list" "Alert list"

record SourceStat =
  stat_last :: "real list"
  stat_max :: real
  total_count :: int
  total_time :: real

record AlertSourceLock =
  lock_source_name :: string
  expires_at :: real

text \<open>
  The fields of \<open>AlertService\<close>, the module globals it writes
  (\<open>SEND_ALERTS_ON_READY\<close>), what it has logged and sent so far (\<open>effects\<close>) and the
  number of clock and uuid readings taken so far (\<open>ticks\<close>). The \<open>defaultdict\<close>s are
  association lists read with their default.

  Alert objects are shared: a policy tracks the very objects that the store held when
  the policy last changed its bucket, and \<open>__handle_alert\<close> assigns to the fields of the
  object it is given. The lists of alerts hold the values of the objects; their
  identities are kept beside them. \<open>alerts_oid\<close> is the list of the identities of the
  alerts of the store, in the order of \<open>alerts\<close> (the alerts of the store are pairwise
  different objects: every operation keeps a part of the store and appends new objects),
  \<open>tracked_oid\<close> gives, for the name of a policy, the identity of the object that the
  policy tracks under each uuid, and \<open>next_oid\<close> is the first unused identity.
\<close>

record AlertService =
  self_node :: string
  alerts :: "Alert list"
  policies :: "(string \<times> (pydatetime, bucket) AlertPolicy) list"
  alert_source_last_run :: "(string \<times> pydatetime) list"
  blocked_sources :: "(string \<times> string list) list"
  sources_locks :: "(string \<times> AlertSourceLock) list"
  blocked_failover_alerts_until :: real
  sources_run_times :: "(string \<times> SourceStat) list"
  alert_sources_errors :: "string set"
  SEND_ALERTS_ON_READY :: bool
  effects :: "effect list"
  ticks :: nat
  alerts_oid :: "nat list"
  tracked_oid :: "(string \<times> (string option \<times> nat) list) list"
  next_oid :: nat

datatype check_outcome =
    CheckNone
  | CheckAlert Alert
  | CheckList "Alert list"
  | CheckUnavailable
  | CheckException string

datatype errno =
    ECONNABORTED | ECONNREFUSED | ECONNRESET | EHOSTDOWN | ETIMEDOUT
  | EALERTCHECKERUNAVAILABLE | OtherErrno int

text \<open>
  What \<open>failover.call_remote("alert.run_source", [name])\<close> does: it returns the peer's
  alerts as dictionaries (here the class name and the remaining fields), or raises a
  \<open>CallError\<close> with its \<open>errno\<close> and its text, a \<open>ReserveFDException\<close>, or another
  exception with its text.
\<close>

datatype remote_outcome =
    RemoteAlerts "(string \<times> Alert) list"
  | RemoteCallError errno string
  | RemoteReserveFD
  | RemoteException string

record AlertSource =
  src_name :: string
  src_products :: "string list"
  failover_related :: bool
  run_on_backup_node :: bool
  schedule_should_run :: "pydatetime \<Rightarrow> pydatetime \<Rightarrow> bool"

record AlertServiceDesc =
  svc_type :: string
  svc_level :: int
  svc_attributes :: string
  svc_enabled :: bool

text \<open>
  Everything the service asks of the middleware, of the registries and of the clocks.
  A factory of \<open>ALERT_SERVICES_FACTORIES\<close> maps the attributes to a backend (\<open>None\<close>: the
  constructor raises); a backend's \<open>send\<close> is \<open>True\<close> when it returns and \<open>False\<close> when
  it raises. \<open>alert_key\<close> is the key that \<open>Alert.__init__\<close> (in \<open>middlewared.alert.base\<close>)
  derives from \<open>args\<close> when no key is given, \<open>AlertClass_base\<close> the attributes a class
  inherits from \<open>AlertClass\<close> of that module, \<open>CRITICAL\<close> the value of
  \<open>AlertLevel.CRITICAL\<close>. \<open>utcnow\<close>, \<open>monotonic\<close> and \<open>uuid4\<close> are indexed by the reading.
\<close>

record Env =
  system_state :: string
  failover_licensed :: bool
  failover_status :: string
  failover_in_progress :: bool
  failover_node :: string
  is_enterprise :: bool
  product_type :: string
  system_version :: string
  remote_info :: "(string \<times> string \<times> string) option"
  remote_run_source :: "string \<Rightarrow> remote_outcome"
  classes :: "string \<rightharpoonup> ClassConfig"
  alertservices :: "AlertServiceDesc list"
  ALERT_SOURCES :: "AlertSource list"
  ALERT_SERVICES_FACTORIES ::
    "string \<rightharpoonup> (string \<Rightarrow> (Alert list \<Rightarrow> Alert list \<Rightarrow> Alert list \<Rightarrow> bool) option)"
  class_by_name :: "string \<rightharpoonup> AlertClass"
  check :: "string \<Rightarrow> check_outcome"
  oneshot_class_create :: "AlertClass \<Rightarrow> (string \<times> string) list \<Rightarrow> Alert option"
  support_is_available_and_enabled :: bool
  utcnow :: "nat \<Rightarrow> pydatetime"
  monotonic :: "nat \<Rightarrow> real"
  uuid4 :: "nat \<Rightarrow> string"
  alert_key :: "(string \<times> string) list \<Rightarrow> string"
  AlertClass_base :: AlertClass
  CRITICAL :: int

text \<open>\<open>Alert(klass, args=args)\<close> and \<open>Alert(klass, args=args, _source=source)\<close>.\<close>

definition Alert_init ::
  "Env \<Rightarrow> AlertClass \<Rightarrow> (string \<times> string) list \<Rightarrow> string option \<Rightarrow> Alert" where
  "Alert_init env k a src =
     \<lparr>uuid = None, source = src, klass = k, args = a, node = None, key = alert_key env a,
      datetime = None, last_occurrence = None, dismissed = None, mail = None\<rparr>"

text \<open>
  The two classes of synthetic alerts. The plugin sets their level, title and
  \<open>exclude_from_list\<close>; the name is the class name without its \<open>AlertClass\<close> suffix.
\<close>

definition AlertSourceRunFailedAlertClass :: "Env \<Rightarrow> AlertClass" where
  "AlertSourceRunFailedAlertClass env =
     (AlertClass_base env)\<lparr>name := ''AlertSourceRunFailed'', title := ''Alert Check Failed'',
       level := CRITICAL env, exclude_from_list := True\<rparr>"

definition AlertSourceRunFailedOnBackupNodeAlertClass :: "Env \<Rightarrow> AlertClass" where
  "AlertSourceRunFailedOnBackupNodeAlertClass env =
     (AlertClass_base env)\<lparr>name := ''AlertSourceRunFailedOnBackupNode'',
       title := ''Alert Check Failed (Standby Controller)'',
       level := CRITICAL env, exclude_from_list := True\<rparr>"

section \<open>Reconciliation: \<open>AlertService.__handle_alert\<close>\<close>

definition same_identity :: "Alert \<Rightarrow> Alert \<Rightarrow> bool" where
  "same_identity a alert \<longleftrightarrow>
     (node a, source a, klass a, key a) = (node alert, source alert, klass alert, key alert)"

text \<open>
  The first alert of the store with the same \<open>(node, source, klass, key)\<close>;
  \<open>None\<close> is the \<open>IndexError\<close> branch.
\<close>

definition existing_alert :: "Alert list \<Rightarrow> Alert \<Rightarrow> Alert option" where
  "existing_alert store alert =
     (case filter (\<lambda>a. same_identity a alert) store of
        [] \<Rightarrow> None
      | a # _ \<Rightarrow> Some a)"

text \<open>
  \<open>new_uuid\<close> is what \<open>self.__uuid()\<close> returns if it is called, \<open>now1\<close> and \<open>now2\<close> what
  the first and the second \<open>datetime.utcnow()\<close> return if they are called. The method
  mutates \<open>alert\<close>; the model returns it.
\<close>

definition handle_alert ::
  "Alert list \<Rightarrow> string \<Rightarrow> pydatetime \<Rightarrow> pydatetime \<Rightarrow> Alert \<Rightarrow> Alert" where
  "handle_alert store new_uuid now1 now2 alert =
     (case existing_alert store alert of
        None \<Rightarrow>
          alert\<lparr>uuid := Some new_uuid,
                datetime :=
                  (let d = (case datetime alert of None \<Rightarrow> now1 | Some d0 \<Rightarrow> d0)
                   in Some (if tzinfo d \<noteq> None
                            then replace_tzinfo_None (astimezone_utc d) else d)),
                last_occurrence := Some now2,
                dismissed := Some False\<rparr>
      | Some e \<Rightarrow>
          alert\<lparr>uuid := uuid e,
                datetime := datetime e,
                last_occurrence := Some now2,
                dismissed := dismissed e\<rparr>)"

text \<open>
  \<open>for alert in ...: self.__handle_alert(alert)\<close>: each call takes its uuid and its two
  clock readings at the next indices. The store is not assigned during the loop.
\<close>

fun handle_alerts :: "Env \<Rightarrow> Alert list \<Rightarrow> nat \<Rightarrow> Alert list \<Rightarrow> Alert list \<times> nat" where
  "handle_alerts env store t [] = ([], t)"
| "handle_alerts env store t (a # rest) =
     (let a' = handle_alert store (uuid4 env t) (utcnow env t) (utcnow env (Suc t)) a;
          (rest', t') = handle_alerts env store (Suc (Suc t)) rest
      in (a' # rest', t'))"

section \<open>Running one source: \<open>AlertService.__run_source\<close>\<close>

definition default_stat :: SourceStat where
  "default_stat = \<lparr>stat_last = [], stat_max = 0, total_count = 0, total_time = 0\<rparr>"

definition get_stat :: "(string \<times> SourceStat) list \<Rightarrow> string \<Rightarrow> SourceStat" where
  "get_stat m k = (case map_of m k of None \<Rightarrow> default_stat | Some v \<Rightarrow> v)"

text \<open>The \<open>finally\<close> block: \<open>last[-9:] + [run_time]\<close>, the maximum, the count, the total.\<close>

definition record_run_time ::
  "string \<Rightarrow> real \<Rightarrow> (string \<times> SourceStat) list \<Rightarrow> (string \<times> SourceStat) list" where
  "record_run_time source_name run_time m =
     (let st = get_stat m source_name
      in AList.update source_name
           \<lparr>stat_last = drop (length (stat_last st) - 9) (stat_last st) @ [run_time],
            stat_max = max (stat_max st) run_time,
            total_count = total_count st + 1,
            total_time = total_time st + run_time\<rparr> m)"

text \<open>The loop that keeps the first alert of every key.\<close>

fun unique_alerts :: "string list \<Rightarrow> Alert list \<Rightarrow> Alert list" where
  "unique_alerts keys [] = []"
| "unique_alerts keys (a # rest) =
     (if key a \<in> set keys then unique_alerts keys rest
      else a # unique_alerts (keys @ [key a]) rest)"

definition find_source :: "Env \<Rightarrow> string \<Rightarrow> AlertSource option" where
  "find_source env source_name =
     List.find (\<lambda>src. src_name src = source_name) (ALERT_SOURCES env)"

text \<open>
  \<open>__run_source\<close>. The result is \<open>Inl KeyError\<close> for a name that is not registered,
  \<open>Inl UnavailableException\<close> when the check raises it (the statistics are still
  recorded), and the alerts otherwise. The two readings of \<open>time.monotonic()\<close> are the
  readings \<open>ticks\<close> and \<open>ticks + 1\<close>.
\<close>

definition run_source ::
  "Env \<Rightarrow> string \<Rightarrow> AlertService \<Rightarrow> (py_error + Alert list) \<times> AlertService" where
  "run_source env source_name s =
     (case find_source env source_name of
        None \<Rightarrow> (Inl KeyError, s)
      | Some alert_source \<Rightarrow>
          (let run_time = monotonic env (Suc (ticks s)) - monotonic env (ticks s);
               s1 = s\<lparr>ticks := Suc (Suc (ticks s)),
                      sources_run_times :=
                        record_run_time source_name run_time (sources_run_times s)\<rparr>;
               finish = (\<lambda>found.
                 map (\<lambda>a. a\<lparr>source := Some source_name\<rparr>) (unique_alerts [] found))
           in case check env source_name of
                CheckUnavailable \<Rightarrow> (Inl UnavailableException, s1)
              | CheckException e \<Rightarrow>
                  (Inr (finish
                     [Alert_init env (AlertSourceRunFailedAlertClass env)
                        [(''source_name'', src_name alert_source), (''traceback'', e)] None]),
                   if source_name \<in> alert_sources_errors s1 then s1
                   else s1\<lparr>effects := effects s1 @
                               [LogError (''Error checking for alert '' @ src_name alert_source)],
                            alert_sources_errors := insert source_name (alert_sources_errors s1)\<rparr>)
              | CheckNone \<Rightarrow>
                  (Inr (finish []),
                   s1\<lparr>alert_sources_errors := alert_sources_errors s1 - {source_name}\<rparr>)
              | CheckAlert a \<Rightarrow>
                  (Inr (finish [a]),
                   s1\<lparr>alert_sources_errors := alert_sources_errors s1 - {source_name}\<rparr>)
              | CheckList found \<Rightarrow>
                  (Inr (finish found),
                   s1\<lparr>alert_sources_errors := alert_sources_errors s1 - {source_name}\<rparr>)))"

section \<open>\<open>AlertService.sources_stats\<close>\<close>

text \<open>
  Python's \<open>/\<close>: it raises on a zero divisor. The run times are floats, taken as reals.
\<close>

definition py_truediv :: "real \<Rightarrow> int \<Rightarrow> py_error + real" where
  "py_truediv a b = (if b = 0 then Inl ZeroDivisionError else Inr (a / real_of_int b))"

definition stat_avg :: "SourceStat \<Rightarrow> py_error + real" where
  "stat_avg v =
     (if total_count v \<noteq> 0 then py_truediv (total_time v) (total_count v) else Inr 0)"

text \<open>
  The dictionary comprehension over the sorted items: every value becomes the pair of
  its \<open>avg\<close> and of its own fields; the first error ends the comprehension.
\<close>

fun stats_entries ::
  "(string \<times> SourceStat) list \<Rightarrow> py_error + (string \<times> real \<times> SourceStat) list" where
  "stats_entries [] = Inr []"
| "stats_entries ((k, v) # kvs) =
     (case stat_avg v of
        Inl e \<Rightarrow> Inl e
      | Inr avg \<Rightarrow>
          (case stats_entries kvs of
             Inl e \<Rightarrow> Inl e
           | Inr rest \<Rightarrow> Inr ((k, avg, v) # rest)))"

definition sources_stats ::
  "AlertService \<Rightarrow> py_error + (string \<times> real \<times> SourceStat) list" where
  "sources_stats s = stats_entries (sort_key fst (sources_run_times s))"

section \<open>Listing: \<open>AlertSerializer.should_show_alert\<close> and \<open>AlertService.list\<close>\<close>

definition get_alert_class :: "Env \<Rightarrow> Alert \<Rightarrow> ClassConfig" where
  "get_alert_class env alert =
     (case classes env (name (klass alert)) of
        None \<Rightarrow> \<lparr>cfg_level = None, cfg_policy = None, cfg_proactive_support = None\<rparr>
      | Some c \<Rightarrow> c)"

definition should_show_alert :: "Env \<Rightarrow> Alert \<Rightarrow> bool" where
  "should_show_alert env alert \<longleftrightarrow>
     (if product_type env \<notin> set (products (klass alert)) then False
      else if cfg_policy (get_alert_class env alert) = Some ''NEVER'' then False
      else True)"

text \<open>
  The sort key \<open>(-level.value, title, datetime)\<close>. Python compares the timestamps only
  when they are all naive or all aware, and raises \<open>TypeError\<close> when a comparison meets
  \<open>None\<close> or a naive and an aware value; the store holds naive timestamps once
  \<open>__handle_alert\<close> has set them, and the model returns the error for any other store.
  \<open>sorted\<close> is stable, as \<open>sort_key\<close> is. The model returns the alerts in the order of
  the result; \<open>serialize\<close> maps each of them to its dictionary. \<open>first_seen\<close> is the wall
  clock of the naive \<open>datetime\<close> of an alert.
\<close>

definition naive_datetime :: "Alert \<Rightarrow> bool" where
  "naive_datetime a \<longleftrightarrow> (case datetime a of None \<Rightarrow> False | Some d \<Rightarrow> tzinfo d = None)"

definition first_seen :: "Alert \<Rightarrow> int" where
  "first_seen alert = (case datetime alert of None \<Rightarrow> 0 | Some d \<Rightarrow> wall d)"

definition list_key :: "Env \<Rightarrow> Alert \<Rightarrow> int \<times> string \<times> int" where
  "list_key env alert =
     (- get_alert_level alert (classes env), title (klass alert), first_seen alert)"

definition alert_list :: "Env \<Rightarrow> AlertService \<Rightarrow> py_error + Alert list" where
  "alert_list env s =
     (if list_all naive_datetime (alerts s)
      then Inr (filter (should_show_alert env) (sort_key (list_key env) (alerts s)))
      else Inl TypeError)"

section \<open>Dispatch: \<open>AlertService.send_alerts\<close>\<close>

text \<open>
  The churn loop. The first argument is the copy \<open>list(service_gone_alerts)\<close> that the
  outer loop runs over; the inner loop stops at the first alert of \<open>service_new_alerts\<close>
  with the class and the key of the gone alert, and both are removed from their lists.
\<close>

fun churn_cancel :: "Alert list \<Rightarrow> Alert list \<Rightarrow> Alert list \<Rightarrow> Alert list \<times> Alert list" where
  "churn_cancel [] service_gone_alerts service_new_alerts =
     (service_gone_alerts, service_new_alerts)"
| "churn_cancel (gone_alert # rest) service_gone_alerts service_new_alerts =
     (case List.find (\<lambda>new_alert. klass gone_alert = klass new_alert \<and>
                                  key gone_alert = key new_alert) service_new_alerts of
        None \<Rightarrow> churn_cancel rest service_gone_alerts service_new_alerts
      | Some new_alert \<Rightarrow>
          churn_cancel rest (remove1 gone_alert service_gone_alerts)
            (remove1 new_alert service_new_alerts))"

definition not_dismissed :: "Alert \<Rightarrow> bool" where
  "not_dismissed alert \<longleftrightarrow> dismissed alert \<noteq> Some True"

text \<open>
  The body of the loop over the enabled alert services, for one service: what is logged
  and sent. A \<open>Send\<close> effect is one invocation of the backend's \<open>send\<close> with its three
  arguments.
\<close>

definition notify_service ::
  "Env \<Rightarrow> string \<Rightarrow> Alert list \<Rightarrow> Alert list \<Rightarrow> Alert list \<Rightarrow> AlertServiceDesc \<Rightarrow>
     effect list" where
  "notify_service env policy_name self_alerts gone_alerts new_alerts alert_service_desc =
     (let service_level = svc_level alert_service_desc;
          service_alerts = filter (\<lambda>alert.
              product_type env \<in> set (products (klass alert)) \<and>
              get_alert_level alert (classes env) \<ge> service_level \<and>
              get_alert_policy alert (classes env) \<noteq> ''NEVER'') self_alerts;
          service_gone_alerts0 = filter (\<lambda>alert.
              product_type env \<in> set (products (klass alert)) \<and>
              get_alert_level alert (classes env) \<ge> service_level \<and>
              get_alert_policy alert (classes env) = policy_name) gone_alerts;
          service_new_alerts0 = filter (\<lambda>alert.
              product_type env \<in> set (products (klass alert)) \<and>
              get_alert_level alert (classes env) \<ge> service_level \<and>
              get_alert_policy alert (classes env) = policy_name) new_alerts;
          (service_gone_alerts, service_new_alerts) =
              churn_cancel service_gone_alerts0 service_gone_alerts0 service_new_alerts0
      in if service_gone_alerts = [] \<and> service_new_alerts = [] then []
         else
           (case ALERT_SERVICES_FACTORIES env (svc_type alert_service_desc) of
              None \<Rightarrow>
                [LogError (''Alert service does not exist: '' @ svc_type alert_service_desc)]
            | Some factory \<Rightarrow>
                (case factory (svc_attributes alert_service_desc) of
                   None \<Rightarrow>
                     [LogError (''Error creating alert service '' @ svc_type alert_service_desc)]
                 | Some alert_service_send \<Rightarrow>
                     (let alerts' = filter not_dismissed service_alerts;
                          service_gone_alerts' = filter not_dismissed service_gone_alerts;
                          service_new_alerts' = filter not_dismissed service_new_alerts
                      in if alerts' \<noteq> [] \<or> service_gone_alerts' \<noteq> [] \<or>
                            service_new_alerts' \<noteq> []
                         then
                           Send (svc_type alert_service_desc) alerts' service_gone_alerts'
                             service_new_alerts' #
                           (if alert_service_send alerts' service_gone_alerts' service_new_alerts'
                            then []
                            else [LogError (''Error in alert service '' @
                                             svc_type alert_service_desc)])
                         else []))))"

text \<open>
  What the \<open>IMMEDIATELY\<close> policy does after the services: the events, the mails, and the
  support ticket (the handling of a failed ticket job is not part of the model).
\<close>

definition immediately_effects :: "Env \<Rightarrow> Alert list \<Rightarrow> Alert list \<Rightarrow> effect list" where
  "immediately_effects env gone_alerts new_alerts =
     map (\<lambda>alert. Event ''REMOVED'' (uuid alert)) (filter (should_show_alert env) gone_alerts) @
     map (\<lambda>alert. Event ''ADDED'' (uuid alert)) (filter (should_show_alert env) new_alerts) @
     concat (map (\<lambda>alert. case mail alert of None \<Rightarrow> [] | Some m \<Rightarrow> if m = [] then [] else [MailSend m])
               new_alerts) @
     (if is_enterprise env then
        (let gone_proactive_support_alerts = filter (\<lambda>alert.
               proactive_support (klass alert) \<and>
               cfg_proactive_support (get_alert_class env alert) \<noteq> Some False \<and>
               proactive_support_notify_gone (klass alert)) gone_alerts;
             new_proactive_support_alerts = filter (\<lambda>alert.
               proactive_support (klass alert) \<and>
               cfg_proactive_support (get_alert_class env alert) \<noteq> Some False) new_alerts
         in if (gone_proactive_support_alerts \<noteq> [] \<or> new_proactive_support_alerts \<noteq> []) \<and>
               support_is_available_and_enabled env
            then [SupportTicket gone_proactive_support_alerts new_proactive_support_alerts]
            else [])
      else [])"

text \<open>
  The identities that go with \<open>{alert.uuid: alert for alert in alerts}\<close>, and the
  identities of the objects that a policy tracks.
\<close>

definition oids_by_uuid :: "Alert list \<Rightarrow> nat list \<Rightarrow> (string option \<times> nat) list" where
  "oids_by_uuid xs oids = foldl (\<lambda>d (a, i). AList.update (uuid a) i d) [] (zip xs oids)"

definition tracked_of :: "AlertService \<Rightarrow> string \<Rightarrow> (string option \<times> nat) list" where
  "tracked_of s policy_name =
     (case map_of (tracked_oid s) policy_name of None \<Rightarrow> [] | Some d \<Rightarrow> d)"

text \<open>One round of the loop over \<open>self.policies.items()\<close>.\<close>

definition send_policy ::
  "Env \<Rightarrow> pydatetime \<Rightarrow> Alert list \<Rightarrow> string \<times> (pydatetime, bucket) AlertPolicy \<Rightarrow>
     (string \<times> (pydatetime, bucket) AlertPolicy) \<times> effect list" where
  "send_policy env now self_alerts np =
     (let policy_name = fst np;
          ((gone_alerts, new_alerts), policy') = receive_alerts (snd np) now self_alerts
      in ((policy_name, policy'),
          concat (map (notify_service env policy_name self_alerts gone_alerts new_alerts)
                    (filter svc_enabled (alertservices env))) @
          (if policy_name = ''IMMEDIATELY''
           then immediately_effects env gone_alerts new_alerts else [])))"

text \<open>
  \<open>send_alerts\<close>. Where the bucket of a policy changes, the policy tracks the objects of
  the store from then on.
\<close>

definition send_alerts :: "Env \<Rightarrow> AlertService \<Rightarrow> AlertService" where
  "send_alerts env s =
     (if system_state env \<noteq> ''READY'' then s\<lparr>SEND_ALERTS_ON_READY := True\<rparr>
      else
        (let now = utcnow env (ticks s);
             rounds = map (send_policy env now (alerts s)) (policies s)
         in s\<lparr>policies := map fst rounds,
               effects := effects s @ concat (map snd rounds),
               ticks := Suc (ticks s),
               tracked_oid :=
                 map (\<lambda>np. (fst np,
                            if bucket_key (snd np) now \<noteq> last_key_value (snd np)
                            then oids_by_uuid (alerts s) (alerts_oid s)
                            else tracked_of s (fst np)))
                   (policies s)\<rparr>))"

section \<open>The scheduling pass: \<open>AlertService.process_alerts\<close>\<close>

definition should_run_or_send_alerts :: "Env \<Rightarrow> bool" where
  "should_run_or_send_alerts env \<longleftrightarrow>
     (if system_state env \<noteq> ''READY'' then False
      else if failover_licensed env \<and>
              (failover_status env = ''BACKUP'' \<or> failover_in_progress env) then False
      else True)"

text \<open>\<open>unblock_source\<close>: the lock is popped and removed from the set of its source.\<close>

definition unblock_source :: "string \<Rightarrow> AlertService \<Rightarrow> AlertService" where
  "unblock_source lock s =
     (case map_of (sources_locks s) lock of
        None \<Rightarrow> s
      | Some source_lock \<Rightarrow>
          s\<lparr>sources_locks := AList.delete lock (sources_locks s),
            blocked_sources :=
              AList.map_entry (lock_source_name source_lock) (remove1 lock)
                (blocked_sources s)\<rparr>)"

text \<open>The sweep of the expired locks, over the copy of the items taken before the loop.\<close>

fun sweep_locks :: "Env \<Rightarrow> (string \<times> AlertSourceLock) list \<Rightarrow> AlertService \<Rightarrow> AlertService" where
  "sweep_locks env [] s = s"
| "sweep_locks env ((k, source_lock) # rest) s =
     (let s1 = s\<lparr>ticks := Suc (ticks s)\<rparr>
      in sweep_locks env rest
           (if expires_at source_lock \<le> monotonic env (ticks s)
            then unblock_source k s1 else s1))"

definition datetime_min :: pydatetime where
  "datetime_min = \<lparr>wall = 0, tzinfo = None\<rparr>"

definition last_run :: "AlertService \<Rightarrow> string \<Rightarrow> pydatetime" where
  "last_run s source_name =
     (case map_of (alert_source_last_run s) source_name of
        None \<Rightarrow> datetime_min
      | Some d \<Rightarrow> d)"

definition is_blocked :: "AlertService \<Rightarrow> string \<Rightarrow> bool" where
  "is_blocked s source_name \<longleftrightarrow>
     (case map_of (blocked_sources s) source_name of None \<Rightarrow> False | Some ls \<Rightarrow> ls \<noteq> [])"

text \<open>
  \<open>[Alert(**dict(...), klass=AlertClass.class_by_name[alert["klass"]], ...) for alert in
  alerts_b]\<close>; \<open>Inl\<close> is the \<open>KeyError\<close> of the first class name that is not registered.
\<close>

fun remote_alerts :: "Env \<Rightarrow> (string \<times> Alert) list \<Rightarrow> string + Alert list" where
  "remote_alerts env [] = Inr []"
| "remote_alerts env ((klass_name, d) # rest) =
     (case class_by_name env klass_name of
        None \<Rightarrow> Inl klass_name
      | Some k \<Rightarrow>
          (case remote_alerts env rest of
             Inl e \<Rightarrow> Inl e
           | Inr rest' \<Rightarrow> Inr (d\<lparr>uuid := None, klass := k, node := None\<rparr> # rest')))"

definition tolerated_errno :: "errno \<Rightarrow> bool" where
  "tolerated_errno e \<longleftrightarrow>
     e \<in> set [ECONNABORTED, ECONNREFUSED, ECONNRESET, EHOSTDOWN, ETIMEDOUT,
              EALERTCHECKERUNAVAILABLE]"

text \<open>
  The alerts of the backup node for one source, and whether the failure to reserve a
  port is logged. \<open>stored\<close> are the alerts of the store for the backup node and the
  source, which stay when the source is blocked or the peer cannot be reached; the
  result says whether its alerts are these stored objects (\<open>True\<close>) or new objects.
\<close>

definition backup_alerts ::
  "Env \<Rightarrow> AlertSource \<Rightarrow> bool \<Rightarrow> Alert list \<Rightarrow> (bool \<times> Alert list) \<times> effect list" where
  "backup_alerts env alert_source locked stored =
     (let failed = (\<lambda>e.
            ((False,
              [Alert_init env (AlertSourceRunFailedOnBackupNodeAlertClass env)
                 [(''source_name'', src_name alert_source), (''traceback'', e)]
                 (Some (src_name alert_source))]), []))
      in if locked then ((True, stored), [])
         else
           (case remote_run_source env (src_name alert_source) of
              RemoteAlerts ds \<Rightarrow>
                (case remote_alerts env ds of
                   Inl klass_name \<Rightarrow> failed (CHR 0x27 # klass_name @ [CHR 0x27])
                 | Inr found \<Rightarrow> ((False, found), []))
            | RemoteCallError e msg \<Rightarrow>
                (if tolerated_errno e then ((True, stored), []) else failed msg)
            | RemoteReserveFD \<Rightarrow>
                ((True, stored), [LogDebug ''Failed to reserve a privileged port''])
            | RemoteException e \<Rightarrow> failed e))"

text \<open>
  The identities of the alerts of the store that satisfy a test, in the order of the
  store; the references of a list of alerts, which are either such stored objects or
  new objects without an identity yet; the identities of a list of references, the new
  objects taking the next unused identities; and the stored objects among the
  references, each with the value that was assigned to it.
\<close>

definition stored_oids :: "(Alert \<Rightarrow> bool) \<Rightarrow> AlertService \<Rightarrow> nat list" where
  "stored_oids P s = map snd (filter (\<lambda>ai. P (fst ai)) (zip (alerts s) (alerts_oid s)))"

definition object_refs :: "bool \<Rightarrow> nat list \<Rightarrow> Alert list \<Rightarrow> nat option list" where
  "object_refs reused oids xs =
     (if reused then map Some oids else replicate (length xs) None)"

fun allocate :: "nat option list \<Rightarrow> nat \<Rightarrow> nat list \<times> nat" where
  "allocate [] n = ([], n)"
| "allocate (Some i # refs) n = (let (oids, n') = allocate refs n in (i # oids, n'))"
| "allocate (None # refs) n = (let (oids, n') = allocate refs (Suc n) in (n # oids, n'))"

definition assigned_objects :: "nat option list \<Rightarrow> Alert list \<Rightarrow> (nat \<times> Alert) list" where
  "assigned_objects refs xs =
     concat (map (\<lambda>rv. case fst rv of None \<Rightarrow> [] | Some i \<Rightarrow> [(i, snd rv)]) (zip refs xs))"

text \<open>
  The effect, on the alerts that the policies track, of assignments to the fields of
  stored objects: a tracked alert that is one of the assigned objects has the assigned
  value.
\<close>

definition assign_tracked :: "(nat \<times> Alert) list \<Rightarrow> AlertService \<Rightarrow> AlertService" where
  "assign_tracked assigned s =
     s\<lparr>policies :=
         map (\<lambda>np. (fst np,
                    (snd np)\<lparr>last_key_value_alerts :=
                       map (\<lambda>ua. (fst ua,
                                  case map_of (tracked_of s (fst np)) (fst ua) of
                                    None \<Rightarrow> snd ua
                                  | Some i \<Rightarrow>
                                      (case map_of assigned i of
                                         None \<Rightarrow> snd ua
                                       | Some v \<Rightarrow> v)))
                         (last_key_value_alerts (snd np))\<rparr>))
           (policies s)\<rparr>"

text \<open>
  The second half of one round: the node tags, the alerts of the backup node, the
  reconciliation of every alert against the store, and the replacement of the source's
  alerts in the store. \<open>reused\<close> says that \<open>alerts_a0\<close> are the stored objects of the
  source for the master node (the source is blocked or unavailable) and not new objects.

  Reconciling a stored object assigns to its fields in place. Such an object has the
  source of the round, so it leaves the store with the others of the source and comes
  back reconciled; and reconciling one does not change the node, the source, the class,
  the key, the uuid, the first-seen timestamp or the dismissed flag of the first stored
  alert of an identity, which is all that the later reconciliations of the loop read, so
  the store is read as it was before the loop. What the assignments do change beyond the
  store are the alerts that the policies track: where a policy tracks a reconciled
  stored object, it tracks the reconciled value.
\<close>

definition finish_alert_source ::
  "Env \<Rightarrow> string \<Rightarrow> string \<Rightarrow> bool \<Rightarrow> AlertSource \<Rightarrow> bool \<Rightarrow> bool \<Rightarrow> Alert list \<Rightarrow>
     AlertService \<Rightarrow> AlertService" where
  "finish_alert_source env master_node backup_node run_on_backup alert_source locked
       reused alerts_a0 s =
     (let alerts_a = map (\<lambda>alert. alert\<lparr>node := Some master_node\<rparr>) alerts_a0;
          refs_a = object_refs reused
                     (stored_oids (\<lambda>alert. node alert = Some master_node \<and>
                                            source alert = Some (src_name alert_source)) s)
                     alerts_a0;
          ((reused_b, alerts_b0), logged) =
            (if run_on_backup \<and> run_on_backup_node alert_source
             then backup_alerts env alert_source locked
                    (filter (\<lambda>alert. node alert = Some backup_node \<and>
                                      source alert = Some (src_name alert_source)) (alerts s))
             else ((False, []), []));
          alerts_b = map (\<lambda>alert. alert\<lparr>node := Some backup_node\<rparr>) alerts_b0;
          refs_b = object_refs reused_b
                     (stored_oids (\<lambda>alert. node alert = Some backup_node \<and>
                                            source alert = Some (src_name alert_source)) s)
                     alerts_b0;
          (handled, t) = handle_alerts env (alerts s) (ticks s) (alerts_a @ alerts_b);
          (oids, n) = allocate (refs_a @ refs_b) (next_oid s)
      in (assign_tracked (assigned_objects (refs_a @ refs_b) handled) s)
           \<lparr>alerts := filter (\<lambda>a. source a \<noteq> Some (src_name alert_source)) (alerts s) @ handled,
            effects := effects s @ logged,
            ticks := t,
            alerts_oid :=
              stored_oids (\<lambda>a. source a \<noteq> Some (src_name alert_source)) s @ oids,
            next_oid := n\<rparr>)"

text \<open>
  One round of the loop over \<open>ALERT_SOURCES.values()\<close>. An exception other than
  \<open>UnavailableException\<close> from \<open>__run_source\<close> leaves the loop. \<open>alerts_a\<close> are the stored
  objects when the source is blocked or unavailable, and the new objects of the check
  otherwise.
\<close>

definition run_alert_source ::
  "Env \<Rightarrow> string \<Rightarrow> string \<Rightarrow> bool \<Rightarrow> bool \<Rightarrow> AlertSource \<Rightarrow> AlertService \<Rightarrow>
     py_error + AlertService" where
  "run_alert_source env master_node backup_node run_on_backup run_failover_related
       alert_source s =
     (if product_type env \<notin> set (src_products alert_source) then Inr s
      else if failover_related alert_source \<and> \<not> run_failover_related then Inr s
      else if \<not> schedule_should_run alert_source (utcnow env (ticks s))
                   (last_run s (src_name alert_source))
           then Inr (s\<lparr>ticks := Suc (ticks s)\<rparr>)
      else
        (let s1 = s\<lparr>alert_source_last_run :=
                       AList.update (src_name alert_source) (utcnow env (Suc (ticks s)))
                         (alert_source_last_run s),
                     ticks := Suc (Suc (ticks s))\<rparr>;
             stored_a = filter (\<lambda>alert. node alert = Some master_node \<and>
                                         source alert = Some (src_name alert_source)) (alerts s1);
             locked = is_blocked s1 (src_name alert_source);
             ran = (if locked
                    then (Inr stored_a,
                          s1\<lparr>effects := effects s1 @
                                [LogDebug (''Not running alert source because it is blocked: '' @
                                           src_name alert_source)]\<rparr>)
                    else run_source env (src_name alert_source)
                           (s1\<lparr>effects := effects s1 @
                                 [LogTrace (''Running alert source: '' @
                                            src_name alert_source)]\<rparr>))
         in case fst ran of
              Inl e \<Rightarrow>
                (if e \<noteq> UnavailableException then Inl e
                 else Inr (finish_alert_source env master_node backup_node run_on_backup
                             alert_source locked True stored_a (snd ran)))
            | Inr alerts_a \<Rightarrow>
                Inr (finish_alert_source env master_node backup_node run_on_backup
                       alert_source locked locked alerts_a (snd ran))))"

fun run_sources ::
  "Env \<Rightarrow> string \<Rightarrow> string \<Rightarrow> bool \<Rightarrow> bool \<Rightarrow> AlertSource list \<Rightarrow> AlertService \<Rightarrow>
     py_error + AlertService" where
  "run_sources env master_node backup_node run_on_backup run_failover_related [] s = Inr s"
| "run_sources env master_node backup_node run_on_backup run_failover_related
       (alert_source # rest) s =
     (case run_alert_source env master_node backup_node run_on_backup run_failover_related
             alert_source s of
        Inl e \<Rightarrow> Inl e
      | Inr s' \<Rightarrow>
          run_sources env master_node backup_node run_on_backup run_failover_related rest s')"

text \<open>\<open>__run_alerts\<close>\<close>

definition run_alerts :: "Env \<Rightarrow> AlertService \<Rightarrow> py_error + AlertService" where
  "run_alerts env s =
     (let enterprise = (product_type env = ''SCALE_ENTERPRISE'');
          licensed = (enterprise \<and> failover_licensed env);
          swapped = (licensed \<and> failover_node env = ''B'');
          master_node = (if swapped then ''B'' else ''A'');
          backup_node = (if swapped then ''A'' else ''B'');
          run_on_backup =
            (licensed \<and>
             (case remote_info env of
                None \<Rightarrow> False
              | Some (remote_version, remote_system_state, remote_failover_status) \<Rightarrow>
                  remote_version = system_version env \<and>
                  remote_system_state = ''READY'' \<and> remote_failover_status = ''BACKUP''));
          run_failover_related =
            (enterprise \<and> monotonic env (ticks s) > blocked_failover_alerts_until s);
          s1 = s\<lparr>ticks := Suc (ticks s)\<rparr>;
          s2 = sweep_locks env (sources_locks s1) s1
      in run_sources env master_node backup_node run_on_backup run_failover_related
           (ALERT_SOURCES env) s2)"

text \<open>
  \<open>__should_expire_alert\<close> with the clock reading \<open>t\<close>; comparing the last occurrence
  raises \<open>TypeError\<close> when it is \<open>None\<close> or aware.
\<close>

definition should_expire_alert :: "Env \<Rightarrow> nat \<Rightarrow> Alert \<Rightarrow> py_error + bool" where
  "should_expire_alert env t alert =
     (if is_one_shot (klass alert) then
        (case expires_after (klass alert) of
           None \<Rightarrow> Inr False
         | Some ttl \<Rightarrow>
             (case last_occurrence alert of
                None \<Rightarrow> Inl TypeError
              | Some lo \<Rightarrow>
                  if tzinfo lo \<noteq> None then Inl TypeError
                  else Inr (wall lo < wall (utcnow env t) - ttl)))
      else Inr False)"

fun expire_filter :: "Env \<Rightarrow> nat \<Rightarrow> Alert list \<Rightarrow> py_error + Alert list" where
  "expire_filter env t [] = Inr []"
| "expire_filter env t (alert # rest) =
     (case should_expire_alert env t alert of
        Inl e \<Rightarrow> Inl e
      | Inr expire \<Rightarrow>
          (case expire_filter env (Suc t) rest of
             Inl e \<Rightarrow> Inl e
           | Inr kept \<Rightarrow> Inr (if expire then kept else alert # kept)))"

text \<open>The identities of the alerts that the filter keeps.\<close>

fun expire_oids :: "Env \<Rightarrow> nat \<Rightarrow> Alert list \<Rightarrow> nat list \<Rightarrow> nat list" where
  "expire_oids env t (alert # rest) (i # oids) =
     (if should_expire_alert env t alert = Inr True then expire_oids env (Suc t) rest oids
      else i # expire_oids env (Suc t) rest oids)"
| "expire_oids env t rest oids = []"

definition expire_alerts :: "Env \<Rightarrow> AlertService \<Rightarrow> py_error + AlertService" where
  "expire_alerts env s =
     (case expire_filter env (ticks s) (alerts s) of
        Inl e \<Rightarrow> Inl e
      | Inr kept \<Rightarrow>
          Inr (s\<lparr>alerts := kept, ticks := ticks s + length (alerts s),
                 alerts_oid := expire_oids env (ticks s) (alerts s) (alerts_oid s)\<rparr>))"

text \<open>
  \<open>process_alerts\<close>. \<open>env\<close> is what the middleware answers from the start of the pass
  to the end of the expiry, \<open>env'\<close> what it answers from the second check of the
  preconditions on. \<open>valid_alerts\<close> is a deep copy: its alerts have the values of the
  alerts of the store at the start of the pass and are new objects, which no policy
  tracks.
\<close>

definition process_alerts :: "Env \<Rightarrow> Env \<Rightarrow> AlertService \<Rightarrow> py_error + AlertService" where
  "process_alerts env env' s =
     (if \<not> should_run_or_send_alerts env then Inr s
      else
        (let valid_alerts = alerts s
         in case run_alerts env s of
              Inl e \<Rightarrow> Inl e
            | Inr s1 \<Rightarrow>
                (case expire_alerts env s1 of
                   Inl e \<Rightarrow> Inl e
                 | Inr s2 \<Rightarrow>
                     if \<not> should_run_or_send_alerts env'
                     then Inr (s2\<lparr>alerts := valid_alerts,
                                  alerts_oid :=
                                    [next_oid s2 ..< next_oid s2 + length valid_alerts],
                                  next_oid := next_oid s2 + length valid_alerts\<rparr>)
                     else Inr (send_alerts env' s2))))"

section \<open>One-shot alerts: \<open>AlertService.oneshot_create\<close>\<close>

definition oneshot_create ::
  "Env \<Rightarrow> string \<Rightarrow> (string \<times> string) list \<Rightarrow> AlertService \<Rightarrow> py_error + AlertService" where
  "oneshot_create env klass_name create_args s =
     (case class_by_name env klass_name of
        None \<Rightarrow> Inl (CallError (''Invalid alert class: '' @ klass_name))
      | Some k \<Rightarrow>
          if \<not> is_one_shot k
          then Inl (CallError (''Alert class is not a one-shot alert class: '' @ klass_name))
          else
            (case oneshot_class_create env k create_args of
               None \<Rightarrow> Inr s
             | Some created \<Rightarrow>
                 (let alert0 = created\<lparr>source := Some [], node := Some (self_node s)\<rparr>;
                      alert = handle_alert (alerts s) (uuid4 env (ticks s))
                                (utcnow env (ticks s)) (utcnow env (Suc (ticks s))) alert0;
                      s1 = s\<lparr>alerts := filter (\<lambda>a. uuid a \<noteq> uuid alert) (alerts s) @ [alert],
                             ticks := Suc (Suc (ticks s)),
                             alerts_oid :=
                               stored_oids (\<lambda>a. uuid a \<noteq> uuid alert) s @ [next_oid s],
                             next_oid := Suc (next_oid s)\<rparr>
                  in Inr (send_alerts env s1))))"

section \<open>Concrete inputs\<close>

definition ex_base :: AlertClass where
  "ex_base =
     \<lparr>name = ''Base'', title = ''Base'', level = 3,
      products = [''SCALE'', ''SCALE_ENTERPRISE''], exclude_from_list = False,
      is_one_shot = False, deleted_automatically = True, expires_after = None,
      proactive_support = False, proactive_support_notify_gone = True\<rparr>"

definition DiskFail :: AlertClass where
  "DiskFail = ex_base\<lparr>name := ''DiskFail'', title := ''Disk failed'', level := 5\<rparr>"

definition naive :: "int \<Rightarrow> pydatetime" where
  "naive w = \<lparr>wall = w, tzinfo = None\<rparr>"

text \<open>
  The stored alert of the specification's example: identifier U, dismissed, for node A,
  source disk, class DiskFail and key sda; and a new observation of the same identity,
  stamped by its check with an aware timestamp two hours east of UTC.
\<close>

definition ex_stored :: Alert where
  "ex_stored =
     \<lparr>uuid = Some ''U'', source = Some ''disk'', klass = DiskFail, args = [],
      node = Some ''A'', key = ''sda'', datetime = Some (naive 100),
      last_occurrence = Some (naive 200), dismissed = Some True, mail = None\<rparr>"

definition ex_observed :: Alert where
  "ex_observed =
     \<lparr>uuid = None, source = Some ''disk'', klass = DiskFail, args = [],
      node = Some ''A'', key = ''sda'',
      datetime = Some \<lparr>wall = 7200000500, tzinfo = Some 7200000000\<rparr>,
      last_occurrence = None, dismissed = None, mail = None\<rparr>"

text \<open>A service on node A with an empty store and the four policies.\<close>

definition ex_state :: AlertService where
  "ex_state =
     \<lparr>self_node = ''A'', alerts = [], policies = initial_policies,
      alert_source_last_run = [], blocked_sources = [], sources_locks = [],
      blocked_failover_alerts_until = 0, sources_run_times = [],
      alert_sources_errors = {}, SEND_ALERTS_ON_READY = False, effects = [], ticks = 0,
      alerts_oid = [], tracked_oid = [], next_oid = 0\<rparr>"

text \<open>
  A second alert, and the \<open>HOURLY\<close> policy after it has received the first alert in
  the first hour of day 0.
\<close>

definition ex_second :: Alert where
  "ex_second = ex_stored\<lparr>uuid := Some ''W'', key := ''sdb'', dismissed := Some False\<rparr>"

definition ex_hourly :: "(pydatetime, bucket) AlertPolicy" where
  "ex_hourly =
     \<lparr>bucket_key = (\<lambda>d. Some (Hour (date_of d) (hour_of d))),
      last_key_value = Some (Hour 0 0),
      last_key_value_alerts = [(Some ''U'', ex_stored)]\<rparr>"

text \<open>The test of the churn loop: the same class and the same key.\<close>

definition churn_match :: "Alert \<Rightarrow> Alert \<Rightarrow> bool" where
  "churn_match g n \<longleftrightarrow> klass g = klass n \<and> key g = key n"

text \<open>
  An environment: a single node of the community product, one source \<open>disk\<close>, one
  enabled mail service of level 3 whose backend never fails, and no class overrides.
\<close>

definition ex_mail :: AlertServiceDesc where
  "ex_mail = \<lparr>svc_type = ''Mail'', svc_level = 3, svc_attributes = [], svc_enabled = True\<rparr>"

definition ex_source :: AlertSource where
  "ex_source =
     \<lparr>src_name = ''disk'', src_products = [''SCALE'', ''SCALE_ENTERPRISE''],
      failover_related = False, run_on_backup_node = True,
      schedule_should_run = (\<lambda>now last. True)\<rparr>"

definition ex_env :: Env where
  "ex_env =
     \<lparr>system_state = ''READY'', failover_licensed = False, failover_status = ''SINGLE'',
      failover_in_progress = False, failover_node = ''A'', is_enterprise = False,
      product_type = ''SCALE'', system_version = ''25.04'', remote_info = None,
      remote_run_source = (\<lambda>n. RemoteException ''unreachable''),
      classes = Map.empty,
      alertservices = [ex_mail],
      ALERT_SOURCES = [ex_source],
      ALERT_SERVICES_FACTORIES = [''Mail'' \<mapsto> (\<lambda>attributes. Some (\<lambda>a g n. True))],
      class_by_name = [''DiskFail'' \<mapsto> DiskFail],
      check = (\<lambda>n. CheckException ''boom''),
      oneshot_class_create = (\<lambda>k a. None),
      support_is_available_and_enabled = False,
      utcnow = (\<lambda>n. naive (1000 + int n)),
      monotonic = (\<lambda>n. real n),
      uuid4 = (\<lambda>n. replicate (Suc n) CHR ''u''),
      alert_key = (\<lambda>a. concat (map snd a)),
      AlertClass_base = ex_base,
      CRITICAL = 5\<rparr>"

text \<open>
  Two gone alerts of class DiskFail and key sda, one of node A and one of node B, and a
  new alert of node A with the same class and key.
\<close>

definition ex_gone_a :: Alert where
  "ex_gone_a = ex_stored\<lparr>dismissed := Some False\<rparr>"

definition ex_gone_b :: Alert where
  "ex_gone_b = ex_stored\<lparr>uuid := Some ''U2'', node := Some ''B'', dismissed := Some False\<rparr>"

definition ex_new_a :: Alert where
  "ex_new_a = ex_stored\<lparr>uuid := Some ''V'', dismissed := Some False\<rparr>"

text \<open>The service with a dismissed and an active alert in its store.\<close>

definition ex_state_two :: AlertService where
  "ex_state_two =
     ex_state\<lparr>alerts := [ex_stored, ex_second], alerts_oid := [0, 1], next_oid := 2\<rparr>"

text \<open>
  Names for the three lists of the loop body of one service: the filtered current
  alerts, and the filtered gone and new alerts after the churn loop.
\<close>

definition service_alerts_of :: "Env \<Rightarrow> AlertServiceDesc \<Rightarrow> Alert list \<Rightarrow> Alert list" where
  "service_alerts_of env desc self_alerts =
     filter (\<lambda>alert.
              product_type env \<in> set (products (klass alert)) \<and>
              get_alert_level alert (classes env) \<ge> svc_level desc \<and>
              get_alert_policy alert (classes env) \<noteq> ''NEVER'') self_alerts"

definition policy_alerts_of ::
  "Env \<Rightarrow> string \<Rightarrow> AlertServiceDesc \<Rightarrow> Alert list \<Rightarrow> Alert list" where
  "policy_alerts_of env policy_name desc xs =
     filter (\<lambda>alert.
              product_type env \<in> set (products (klass alert)) \<and>
              get_alert_level alert (classes env) \<ge> svc_level desc \<and>
              get_alert_policy alert (classes env) = policy_name) xs"

definition service_churn ::
  "Env \<Rightarrow> string \<Rightarrow> AlertServiceDesc \<Rightarrow> Alert list \<Rightarrow> Alert list \<Rightarrow>
     Alert list \<times> Alert list" where
  "service_churn env policy_name desc gone_alerts new_alerts =
     churn_cancel (policy_alerts_of env policy_name desc gone_alerts)
       (policy_alerts_of env policy_name desc gone_alerts)
       (policy_alerts_of env policy_name desc new_alerts)"

text \<open>
  A stored alert of the hidden class of failed checks, an informational class that
  the configuration silences with the policy \<open>NEVER\<close>, a class of another product, and
  an environment with that configuration.
\<close>

definition ex_failed :: Alert where
  "ex_failed =
     (Alert_init ex_env (AlertSourceRunFailedAlertClass ex_env)
        [(''source_name'', ''disk''), (''traceback'', ''boom'')] None)
       \<lparr>uuid := Some ''F'', source := Some ''disk'', node := Some ''A'',
        datetime := Some (naive 50), last_occurrence := Some (naive 60),
        dismissed := Some False\<rparr>"

definition Quiet :: AlertClass where
  "Quiet = ex_base\<lparr>name := ''Quiet'', title := ''Quiet'', level := 7\<rparr>"

definition Foreign :: AlertClass where
  "Foreign = ex_base\<lparr>name := ''Foreign'', title := ''Foreign'', level := 7,
     products := [''SCALE_ENTERPRISE'']\<rparr>"

definition ex_quiet :: Alert where
  "ex_quiet = ex_stored\<lparr>uuid := Some ''Q'', klass := Quiet, dismissed := Some False\<rparr>"

definition ex_foreign :: Alert where
  "ex_foreign = ex_stored\<lparr>uuid := Some ''X'', klass := Foreign, dismissed := Some False\<rparr>"

definition ex_env_never :: Env where
  "ex_env_never =
     ex_env\<lparr>classes :=
       [''Quiet'' \<mapsto> \<lparr>cfg_level = None, cfg_policy = Some ''NEVER'',
                       cfg_proactive_support = None\<rparr>]\<rparr>"

definition ex_state_list :: AlertService where
  "ex_state_list =
     ex_state\<lparr>alerts := [ex_second, ex_quiet, ex_failed, ex_foreign, ex_stored],
       alerts_oid := [0, 1, 2, 3, 4], next_oid := 5\<rparr>"

text \<open>The same environment with a check of \<open>disk\<close> that succeeds.\<close>

definition ex_env_ok :: Env where
  "ex_env_ok = ex_env\<lparr>check := (\<lambda>n. CheckList [ex_observed])\<rparr>"

text \<open>
  What a step that does not dispatch may do to the outside: it adds log entries only,
  and it leaves every policy with its bucket function, its recorded bucket and the uuids
  that it tracks (the values of the tracked alerts may change, by assignments to stored
  objects).
\<close>

fun is_log :: "effect \<Rightarrow> bool" where
  "is_log (LogError m) = True"
| "is_log (LogInfo m) = True"
| "is_log (LogDebug m) = True"
| "is_log (LogTrace m) = True"
| "is_log e = False"

definition policy_frame ::
  "AlertService \<Rightarrow>
     (string \<times> (pydatetime \<Rightarrow> bucket option) \<times> bucket option \<times> string option list) list" where
  "policy_frame s =
     map (\<lambda>np. (fst np, bucket_key (snd np), last_key_value (snd np),
                map fst (last_key_value_alerts (snd np)))) (policies s)"

definition only_logged :: "AlertService \<Rightarrow> AlertService \<Rightarrow> bool" where
  "only_logged s s' \<longleftrightarrow>
     policy_frame s' = policy_frame s \<and>
     SEND_ALERTS_ON_READY s' = SEND_ALERTS_ON_READY s \<and>
     (\<exists>l. effects s' = effects s @ l \<and> list_all is_log l)"

text \<open>
  The environment after a change of role: the node is licensed for failover and has
  become the backup.
\<close>

definition ex_env_backup :: Env where
  "ex_env_backup = ex_env_ok\<lparr>failover_licensed := True, failover_status := ''BACKUP''\<rparr>"

text \<open>
  A one-shot class, an environment in which it is registered and creates an alert from
  its arguments, and two stored alerts of that class and of the key \<open>tank\<close>, both
  dismissed: one of the local node A and one of node B.
\<close>

definition PoolUpgraded :: AlertClass where
  "PoolUpgraded =
     ex_base\<lparr>name := ''PoolUpgraded'', title := ''Pool can be upgraded'',
       is_one_shot := True, deleted_automatically := False\<rparr>"

definition ex_env_oneshot :: Env where
  "ex_env_oneshot =
     ex_env\<lparr>class_by_name := [''PoolUpgraded'' \<mapsto> PoolUpgraded],
            oneshot_class_create := (\<lambda>k a. Some (Alert_init ex_env k a None))\<rparr>"

definition ex_oneshot_local :: Alert where
  "ex_oneshot_local =
     \<lparr>uuid = Some ''L'', source = Some [], klass = PoolUpgraded, args = [(''pool'', ''tank'')],
      node = Some ''A'', key = ''tank'', datetime = Some (naive 10),
      last_occurrence = Some (naive 20), dismissed = Some True, mail = None\<rparr>"

definition ex_oneshot_peer :: Alert where
  "ex_oneshot_peer = ex_oneshot_local\<lparr>uuid := Some ''P'', node := Some ''B''\<rparr>"

text \<open>
  A service whose source \<open>disk\<close> is blocked for a long time, and whose \<open>IMMEDIATELY\<close>
  policy tracks the one alert of the store, the same object.
\<close>

definition ex_state_blocked :: AlertService where
  "ex_state_blocked =
     ex_state\<lparr>alerts := [ex_stored], alerts_oid := [0], next_oid := 1,
       policies :=
         (''IMMEDIATELY'',
          \<lparr>bucket_key = (\<lambda>now. Some (Instant now)),
           last_key_value = Some (Instant (naive 900)),
           last_key_value_alerts = [(Some ''U'', ex_stored)]\<rparr>) # tl initial_policies,
       tracked_oid := [(''IMMEDIATELY'', [(Some ''U'', 0)])],
       blocked_sources := [(''disk'', [''lock''])],
       sources_locks := [(''lock'', \<lparr>lock_source_name = ''disk'', expires_at = 1000000\<rparr>)]\<rparr>"

text \<open>
  For the description of the churn loop: the class and key of an alert; the number of
  the alerts of a list that have a given key under a key function; and a list without,
  for every key, its first alerts of that key, as many as a count says.
\<close>

definition class_key :: "Alert \<Rightarrow> AlertClass \<times> string" where
  "class_key a = (klass a, key a)"

definition count_key :: "('a \<Rightarrow> 'c) \<Rightarrow> 'a list \<Rightarrow> 'c \<Rightarrow> nat" where
  "count_key k xs c = length (filter (\<lambda>x. k x = c) xs)"

fun drop_matched :: "('a \<Rightarrow> 'c) \<Rightarrow> ('c \<Rightarrow> nat) \<Rightarrow> 'a list \<Rightarrow> 'a list" where
  "drop_matched k f [] = []"
| "drop_matched k f (x # xs) =
     (if f (k x) = 0 then x # drop_matched k f xs
      else drop_matched k (f(k x := f (k x) - 1)) xs)"

section \<open>Properties of reconciliation\<close>

lemma existing_alert_find:
  "existing_alert store alert = List.find (\<lambda>a. same_identity a alert) store"
  by (induction store) (simp_all add: existing_alert_def)

lemma existing_alert_None:
  "existing_alert store alert = None \<longleftrightarrow> (\<forall>a \<in> set store. \<not> same_identity a alert)"
  by (auto simp add: existing_alert_find find_None_iff)

lemma existing_alert_Some:
  "existing_alert store alert = Some e \<Longrightarrow> e \<in> set store \<and> same_identity e alert"
  by (auto simp add: existing_alert_find find_Some_iff)

text \<open>
  C1. Reconciliation preserves alert identity. If the store holds an alert with the same
  (node, source, class, key), the first such alert \<open>e\<close> gives the observed alert its uuid,
  its dismissed flag and its first-seen timestamp, and the last occurrence becomes the
  current clock reading. If the store holds none, the alert gets the freshly generated
  uuid, is not dismissed, its first-seen timestamp is the one of the check result, or the
  clock reading when the check result has none, as a naive UTC value (an aware timestamp
  is shifted by its offset and loses its \<open>tzinfo\<close>), and the last occurrence is the
  current clock reading. The identity fields of the alert itself are never changed.
\<close>

theorem handle_alert_preserves_identity:
  "(\<forall>e. List.find (\<lambda>a. same_identity a alert) store = Some e \<longrightarrow>
        uuid (handle_alert store new_uuid now1 now2 alert) = uuid e \<and>
        dismissed (handle_alert store new_uuid now1 now2 alert) = dismissed e \<and>
        datetime (handle_alert store new_uuid now1 now2 alert) = datetime e \<and>
        last_occurrence (handle_alert store new_uuid now1 now2 alert) = Some now2) \<and>
   ((\<forall>a \<in> set store. \<not> same_identity a alert) \<longrightarrow>
        uuid (handle_alert store new_uuid now1 now2 alert) = Some new_uuid \<and>
        dismissed (handle_alert store new_uuid now1 now2 alert) = Some False \<and>
        (\<exists>d. datetime (handle_alert store new_uuid now1 now2 alert) = Some d \<and>
             tzinfo d = None \<and>
             wall d = (let d0 = (case datetime alert of None \<Rightarrow> now1 | Some d1 \<Rightarrow> d1)
                       in case tzinfo d0 of None \<Rightarrow> wall d0 | Some off \<Rightarrow> wall d0 - off)) \<and>
        last_occurrence (handle_alert store new_uuid now1 now2 alert) = Some now2) \<and>
   same_identity (handle_alert store new_uuid now1 now2 alert) alert \<and>
   args (handle_alert store new_uuid now1 now2 alert) = args alert \<and>
   mail (handle_alert store new_uuid now1 now2 alert) = mail alert"
proof (cases "existing_alert store alert")
  case None
  then have no: "\<forall>a \<in> set store. \<not> same_identity a alert"
    by (simp add: existing_alert_None)
  then have nofind: "List.find (\<lambda>a. same_identity a alert) store = None"
    by (simp add: find_None_iff)
  show ?thesis
    using None nofind
    by (auto simp add: handle_alert_def same_identity_def Let_def astimezone_utc_def
        replace_tzinfo_None_def split: option.splits)
next
  case (Some e)
  then have f: "List.find (\<lambda>a. same_identity a alert) store = Some e"
    by (simp add: existing_alert_find)
  have "e \<in> set store \<and> same_identity e alert"
    using Some by (rule existing_alert_Some)
  then have ex: "\<not> (\<forall>a \<in> set store. \<not> same_identity a alert)"
    by blast
  have ids: "same_identity (handle_alert store new_uuid now1 now2 alert) alert"
    using Some by (simp add: handle_alert_def same_identity_def)
  show ?thesis
    using f ex ids by (auto simp add: handle_alert_def Some)
qed

theorem handle_alert_preserves_identity_witness:
  "List.find (\<lambda>a. same_identity a ex_observed) [ex_stored] = Some ex_stored \<and>
   uuid (handle_alert [ex_stored] ''V'' (naive 300) (naive 301) ex_observed) = Some ''U'' \<and>
   dismissed (handle_alert [ex_stored] ''V'' (naive 300) (naive 301) ex_observed) = Some True \<and>
   datetime (handle_alert [ex_stored] ''V'' (naive 300) (naive 301) ex_observed) =
     Some (naive 100) \<and>
   last_occurrence (handle_alert [ex_stored] ''V'' (naive 300) (naive 301) ex_observed) =
     Some (naive 301) \<and>
   uuid (handle_alert [] ''V'' (naive 300) (naive 301) ex_observed) = Some ''V'' \<and>
   dismissed (handle_alert [] ''V'' (naive 300) (naive 301) ex_observed) = Some False \<and>
   datetime (handle_alert [] ''V'' (naive 300) (naive 301) ex_observed) = Some (naive 500) \<and>
   last_occurrence (handle_alert [] ''V'' (naive 300) (naive 301) ex_observed) =
     Some (naive 301)"
proof -
  have f: "List.find (\<lambda>a. same_identity a ex_observed) [ex_stored] = Some ex_stored"
    by (simp add: same_identity_def ex_observed_def ex_stored_def)
  have n: "\<forall>a \<in> set []. \<not> same_identity a ex_observed"
    by simp
  have d: "datetime (handle_alert [] ''V'' (naive 300) (naive 301) ex_observed) =
      Some (naive 500)"
    by (simp add: handle_alert_def existing_alert_def ex_observed_def naive_def
        astimezone_utc_def replace_tzinfo_None_def)
  show ?thesis
    using handle_alert_preserves_identity
            [of ex_observed "[ex_stored]" "''V''" "naive 300" "naive 301"]
          handle_alert_preserves_identity
            [of ex_observed "[]" "''V''" "naive 300" "naive 301"]
          f n d
    by (simp add: ex_stored_def)
qed

section \<open>Properties of the statistics\<close>

lemma stats_entries_total:
  "stats_entries kvs =
     Inr (map (\<lambda>(k, v). (k, (if total_count v \<noteq> 0
                                 then total_time v / real_of_int (total_count v) else 0), v)) kvs)"
  by (induction kvs) (auto simp add: stat_avg_def py_truediv_def)

text \<open>
  C10. The statistics of the sources are total and safe from a division by zero: for
  every state, \<open>sources_stats\<close> returns (it never raises), its entries are those of
  \<open>sources_run_times\<close> in the order of the source names, and the average of an entry is
  the total time divided by the count where the count is not zero, and 0 where it is.
\<close>

theorem sources_stats_total:
  "sources_stats s =
     Inr (map (\<lambda>(k, v). (k, (if total_count v \<noteq> 0
                                 then total_time v / real_of_int (total_count v) else 0), v))
            (sort_key fst (sources_run_times s)))"
  by (simp add: sources_stats_def stats_entries_total)

theorem sources_stats_total_witness:
  "sources_stats
     (ex_state\<lparr>sources_run_times :=
           [(''smart'', \<lparr>stat_last = [1, 2], stat_max = 2, total_count = 2, total_time = 3\<rparr>),
            (''idle'', default_stat)]\<rparr>) =
   Inr [(''idle'', 0, default_stat),
        (''smart'', 3 / 2,
         \<lparr>stat_last = [1, 2], stat_max = 2, total_count = 2, total_time = 3\<rparr>)]"
  using sources_stats_total
          [of "ex_state\<lparr>sources_run_times :=
           [(''smart'', \<lparr>stat_last = [1, 2], stat_max = 2, total_count = 2, total_time = 3\<rparr>),
            (''idle'', default_stat)]\<rparr>"]
  by (simp add: default_stat_def)

section \<open>Properties of the policies\<close>

lemma update_fresh: "k \<notin> fst ` set al \<Longrightarrow> AList.update k v al = al @ [(k, v)]"
  by (induction al) auto

lemma set_update_subset: "set (AList.update k v al) \<subseteq> insert (k, v) (set al)"
  by (induction al) auto

lemma foldl_update_keys:
  "fst ` set (foldl (\<lambda>d a. AList.update (uuid a) a d) d xs) = fst ` set d \<union> uuid ` set xs"
  by (induction xs arbitrary: d) (auto simp add: dom_update)

lemma foldl_update_values:
  "snd ` set (foldl (\<lambda>d a. AList.update (uuid a) a d) d xs) \<subseteq> snd ` set d \<union> set xs"
proof (induction xs arbitrary: d)
  case Nil
  then show ?case by simp
next
  case (Cons x xs)
  have "snd ` set (AList.update (uuid x) x d) \<subseteq> insert x (snd ` set d)"
    using set_update_subset [of "uuid x" x d] by force
  moreover have "snd ` set (foldl (\<lambda>d a. AList.update (uuid a) a d)
        (AList.update (uuid x) x d) xs)
      \<subseteq> snd ` set (AList.update (uuid x) x d) \<union> set xs"
    by (rule Cons.IH)
  ultimately have "snd ` set (foldl (\<lambda>d a. AList.update (uuid a) a d)
        (AList.update (uuid x) x d) xs)
      \<subseteq> insert x (snd ` set d) \<union> set xs"
    by blast
  then show ?case
    by auto
qed

lemma foldl_update_distinct:
  "distinct (map fst d) \<Longrightarrow>
   distinct (map fst (foldl (\<lambda>d a. AList.update (uuid a) a d) d xs))"
  by (induction xs arbitrary: d) (simp_all add: distinct_update)

lemma foldl_update_keyed:
  "\<forall>e \<in> set d. uuid (snd e) = fst e \<Longrightarrow>
   \<forall>e \<in> set (foldl (\<lambda>d a. AList.update (uuid a) a d) d xs). uuid (snd e) = fst e"
proof (induction xs arbitrary: d)
  case Nil
  then show ?case by simp
next
  case (Cons x xs)
  have "\<forall>e \<in> set (AList.update (uuid x) x d). uuid (snd e) = fst e"
    using Cons.prems set_update_subset [of "uuid x" x d] by auto
  then show ?case
    using Cons.IH by simp
qed

lemma foldl_update_fresh:
  "distinct (map uuid xs) \<Longrightarrow> uuid ` set xs \<inter> fst ` set d = {} \<Longrightarrow>
   foldl (\<lambda>d a. AList.update (uuid a) a d) d xs = d @ map (\<lambda>a. (uuid a, a)) xs"
proof (induction xs arbitrary: d)
  case Nil
  then show ?case by simp
next
  case (Cons x xs)
  have fresh: "uuid x \<notin> fst ` set d"
    using Cons.prems(2) by auto
  have "uuid ` set xs \<inter> fst ` set (d @ [(uuid x, x)]) = {}"
    using Cons.prems by auto
  then show ?case
    using Cons.IH [of "d @ [(uuid x, x)]"] Cons.prems(1) by (simp add: update_fresh [OF fresh])
qed

lemma alerts_by_uuid_keys: "set (map fst (alerts_by_uuid xs)) = uuid ` set xs"
  using foldl_update_keys [of "[]" xs] by (simp add: alerts_by_uuid_def)

lemma alerts_by_uuid_values: "set (map snd (alerts_by_uuid xs)) \<subseteq> set xs"
  using foldl_update_values [of "[]" xs] by (simp add: alerts_by_uuid_def)

lemma alerts_by_uuid_distinct: "distinct (map fst (alerts_by_uuid xs))"
  using foldl_update_distinct [of "[]" xs] by (simp add: alerts_by_uuid_def)

lemma alerts_by_uuid_keyed: "map uuid (map snd (alerts_by_uuid xs)) = map fst (alerts_by_uuid xs)"
  using foldl_update_keyed [of "[]" xs] by (simp add: alerts_by_uuid_def)

lemma alerts_by_uuid_distinct_input:
  "distinct (map uuid xs) \<Longrightarrow> alerts_by_uuid xs = map (\<lambda>a. (uuid a, a)) xs"
  using foldl_update_fresh [of xs "[]"] by (simp add: alerts_by_uuid_def)


text \<open>
  C3. Policy throttling. When the bucket of \<open>now\<close> is the recorded bucket,
  \<open>receive_alerts\<close> returns no gone and no new alert and leaves the policy as it is.
  When the bucket differs, the gone alerts are exactly the tracked alerts whose uuid no
  current alert has; the new alerts are current alerts, one for every uuid of a current
  alert that is not tracked (they are exactly the current alerts with an untracked uuid
  when the uuids of the current alerts are distinct); and the policy records the bucket
  of \<open>now\<close> and tracks the current alerts by uuid.
\<close>

theorem receive_alerts_throttling:
  "(bucket_key p now = last_key_value p \<longrightarrow>
      receive_alerts p now current = (([], []), p)) \<and>
   (bucket_key p now \<noteq> last_key_value p \<longrightarrow>
      fst (fst (receive_alerts p now current)) =
        filter (\<lambda>a. uuid a \<notin> uuid ` set current) (map snd (last_key_value_alerts p)) \<and>
      set (snd (fst (receive_alerts p now current))) \<subseteq> set current \<and>
      uuid ` set (snd (fst (receive_alerts p now current))) =
        uuid ` set current - fst ` set (last_key_value_alerts p) \<and>
      distinct (map uuid (snd (fst (receive_alerts p now current)))) \<and>
      (distinct (map uuid current) \<longrightarrow>
         snd (fst (receive_alerts p now current)) =
           filter (\<lambda>a. uuid a \<notin> fst ` set (last_key_value_alerts p)) current) \<and>
      last_key_value (snd (receive_alerts p now current)) = bucket_key p now \<and>
      bucket_key (snd (receive_alerts p now current)) = bucket_key p \<and>
      fst ` set (last_key_value_alerts (snd (receive_alerts p now current))) =
        uuid ` set current \<and>
      snd ` set (last_key_value_alerts (snd (receive_alerts p now current))) \<subseteq> set current \<and>
      (distinct (map uuid current) \<longrightarrow>
         last_key_value_alerts (snd (receive_alerts p now current)) =
           map (\<lambda>a. (uuid a, a)) current))"
proof (cases "bucket_key p now = last_key_value p")
  case True
  then show ?thesis
    by (simp add: receive_alerts_def)
next
  case False
  let ?d = "alerts_by_uuid current"
  let ?new = "filter (\<lambda>a. uuid a \<notin> set (map fst (last_key_value_alerts p))) (map snd ?d)"
  have r: "receive_alerts p now current =
      ((filter (\<lambda>a. uuid a \<notin> set (map fst ?d)) (map snd (last_key_value_alerts p)), ?new),
       p\<lparr>last_key_value := bucket_key p now, last_key_value_alerts := ?d\<rparr>)"
    using False by (simp add: receive_alerts_def Let_def)
  have keys: "set (map fst ?d) = uuid ` set current"
    by (rule alerts_by_uuid_keys)
  have vals: "set (map snd ?d) \<subseteq> set current"
    by (rule alerts_by_uuid_values)
  have keyed: "map uuid (map snd ?d) = map fst ?d"
    by (rule alerts_by_uuid_keyed)
  have g: "fst (fst (receive_alerts p now current)) =
      filter (\<lambda>a. uuid a \<notin> uuid ` set current) (map snd (last_key_value_alerts p))"
    by (simp only: r fst_conv keys)
  have n1: "set ?new \<subseteq> set current"
    using vals by auto
  have im: "uuid ` set (map snd ?d) = uuid ` set current"
    using keyed keys by (metis set_map)
  have "uuid ` set ?new =
      {u \<in> uuid ` set (map snd ?d). u \<notin> fst ` set (last_key_value_alerts p)}"
    by auto
  then have n2: "uuid ` set ?new = uuid ` set current - fst ` set (last_key_value_alerts p)"
    unfolding im by auto
  have "distinct (map uuid (map snd ?d))"
    by (simp only: keyed alerts_by_uuid_distinct)
  then have n3: "distinct (map uuid ?new)"
    by (simp only: distinct_map_filter)
  have n4: "distinct (map uuid current) \<longrightarrow>
      ?new = filter (\<lambda>a. uuid a \<notin> fst ` set (last_key_value_alerts p)) current"
    by (simp add: alerts_by_uuid_distinct_input comp_def)
  have k2: "fst ` set ?d = uuid ` set current"
    using keys by simp
  have v2: "snd ` set ?d \<subseteq> set current"
    using vals by simp
  have d2: "distinct (map uuid current) \<longrightarrow> ?d = map (\<lambda>a. (uuid a, a)) current"
    by (simp add: alerts_by_uuid_distinct_input)
  show ?thesis
    using False g n1 n2 n3 n4 k2 v2 d2 by (simp add: r)
qed

theorem receive_alerts_throttling_witness:
  "bucket_key ex_hourly (naive 200) = last_key_value ex_hourly \<and>
   receive_alerts ex_hourly (naive 200) [ex_second] = (([], []), ex_hourly) \<and>
   bucket_key ex_hourly (naive 3600000000) \<noteq> last_key_value ex_hourly \<and>
   distinct (map uuid [ex_second]) \<and>
   fst (receive_alerts ex_hourly (naive 3600000000) [ex_second]) = ([ex_stored], [ex_second]) \<and>
   last_key_value (snd (receive_alerts ex_hourly (naive 3600000000) [ex_second])) =
     Some (Hour 0 1) \<and>
   last_key_value_alerts (snd (receive_alerts ex_hourly (naive 3600000000) [ex_second])) =
     [(Some ''W'', ex_second)]"
proof -
  have same: "bucket_key ex_hourly (naive 200) = last_key_value ex_hourly"
    by (simp add: ex_hourly_def naive_def date_of_def hour_of_def)
  have other: "bucket_key ex_hourly (naive 3600000000) \<noteq> last_key_value ex_hourly"
    by (simp add: ex_hourly_def naive_def date_of_def hour_of_def)
  have key: "bucket_key ex_hourly (naive 3600000000) = Some (Hour 0 1)"
    by (simp add: ex_hourly_def naive_def date_of_def hour_of_def)
  have d: "distinct (map uuid [ex_second])"
    by simp
  have tracked: "last_key_value_alerts ex_hourly = [(Some ''U'', ex_stored)]"
    by (simp add: ex_hourly_def)
  have u: "uuid ex_second = Some ''W''" "uuid ex_stored = Some ''U''"
    by (simp_all add: ex_second_def ex_stored_def)
  show ?thesis
    using receive_alerts_throttling [of ex_hourly "naive 200" "[ex_second]"]
          receive_alerts_throttling [of ex_hourly "naive 3600000000" "[ex_second]"]
          same other d
    by (simp add: key tracked u prod_eq_iff)
qed

section \<open>Properties of the dispatch\<close>

lemma count_list_remove1:
  "count_list (remove1 x xs) y =
     (if x = y \<and> x \<in> set xs then count_list xs y - 1 else count_list xs y)"
  by (induction xs) auto

lemma count_list_pos: "x \<in> set xs \<longleftrightarrow> 0 < count_list xs x"
  by (induction xs) auto

lemma churn_cancel_subset:
  "churn_cancel it gs ns = (g', n') \<Longrightarrow> set g' \<subseteq> set gs \<and> set n' \<subseteq> set ns"
proof (induction it arbitrary: gs ns)
  case Nil
  then show ?case by simp
next
  case (Cons x it)
  show ?case
  proof (cases "List.find (\<lambda>n. klass x = klass n \<and> key x = key n) ns")
    case None
    then show ?thesis using Cons by simp
  next
    case (Some n0)
    then have "churn_cancel it (remove1 x gs) (remove1 n0 ns) = (g', n')"
      using Cons.prems by simp
    then have "set g' \<subseteq> set (remove1 x gs) \<and> set n' \<subseteq> set (remove1 n0 ns)"
      by (rule Cons.IH)
    then show ?thesis
      using set_remove1_subset [of x gs] set_remove1_subset [of n0 ns] by blast
  qed
qed

lemma churn_cancel_no_pair:
  "churn_cancel it gs ns = (g', n') \<Longrightarrow>
   (\<And>g. \<exists>n \<in> set ns. churn_match g n \<Longrightarrow> count_list gs g \<le> count_list it g) \<Longrightarrow>
   g \<in> set g' \<Longrightarrow> n \<in> set n' \<Longrightarrow> \<not> churn_match g n"
proof (induction it arbitrary: gs ns)
  case Nil
  then have "g \<in> set gs" "n \<in> set ns" by simp_all
  show ?case
  proof
    assume "churn_match g n"
    then have "count_list gs g \<le> count_list [] g"
      using Nil.prems(2) \<open>n \<in> set ns\<close> by blast
    then show False
      using \<open>g \<in> set gs\<close> by (simp add: count_list_pos)
  qed
next
  case (Cons x it)
  show ?case
  proof (cases "List.find (\<lambda>n. klass x = klass n \<and> key x = key n) ns")
    case None
    then have nomatch: "\<And>m. m \<in> set ns \<Longrightarrow> \<not> churn_match x m"
      by (auto simp add: find_None_iff churn_match_def)
    have run: "churn_cancel it gs ns = (g', n')"
      using None Cons.prems(1) by simp
    have inv: "\<And>h. \<exists>m \<in> set ns. churn_match h m \<Longrightarrow> count_list gs h \<le> count_list it h"
    proof -
      fix h
      assume m: "\<exists>m \<in> set ns. churn_match h m"
      then have "h \<noteq> x" using nomatch by blast
      then show "count_list gs h \<le> count_list it h"
        using Cons.prems(2) [OF m] by simp
    qed
    show ?thesis
      using Cons.IH [OF run inv Cons.prems(3) Cons.prems(4)] .
  next
    case (Some n0)
    have run: "churn_cancel it (remove1 x gs) (remove1 n0 ns) = (g', n')"
      using Some Cons.prems(1) by simp
    have inv: "\<And>h. \<exists>m \<in> set (remove1 n0 ns). churn_match h m \<Longrightarrow>
        count_list (remove1 x gs) h \<le> count_list it h"
    proof -
      fix h
      assume "\<exists>m \<in> set (remove1 n0 ns). churn_match h m"
      then have m: "\<exists>m \<in> set ns. churn_match h m"
        using set_remove1_subset [of n0 ns] by blast
      have le: "count_list gs h \<le> count_list (x # it) h"
        by (rule Cons.prems(2) [OF m])
      show "count_list (remove1 x gs) h \<le> count_list it h"
      proof (cases "x = h")
        case True
        then show ?thesis
          using le by (auto simp add: count_list_remove1 count_list_pos)
      next
        case False
        then show ?thesis
          using le by (simp add: count_list_remove1)
      qed
    qed
    show ?thesis
      using Cons.IH [OF run inv Cons.prems(3) Cons.prems(4)] .
  qed
qed

lemma churn_cancel_length:
  "churn_cancel it gs ns = (g', n') \<Longrightarrow>
   (\<And>g. count_list it g \<le> count_list gs g) \<Longrightarrow>
   length gs + length n' = length g' + length ns"
proof (induction it arbitrary: gs ns)
  case Nil
  then show ?case by simp
next
  case (Cons x it)
  have xin: "x \<in> set gs"
    using Cons.prems(2) [of x] by (simp add: count_list_pos)
  show ?case
  proof (cases "List.find (\<lambda>n. klass x = klass n \<and> key x = key n) ns")
    case None
    have run: "churn_cancel it gs ns = (g', n')"
      using None Cons.prems(1) by simp
    have inv: "\<And>h. count_list it h \<le> count_list gs h"
    proof -
      fix h
      show "count_list it h \<le> count_list gs h"
        using Cons.prems(2) [of h] by (simp split: if_splits)
    qed
    show ?thesis
      using Cons.IH [OF run inv] .
  next
    case (Some n0)
    have nin: "n0 \<in> set ns"
      using Some by (auto simp add: find_Some_iff)
    have run: "churn_cancel it (remove1 x gs) (remove1 n0 ns) = (g', n')"
      using Some Cons.prems(1) by simp
    have inv: "\<And>h. count_list it h \<le> count_list (remove1 x gs) h"
    proof -
      fix h
      show "count_list it h \<le> count_list (remove1 x gs) h"
        using Cons.prems(2) [of h] xin by (auto simp add: count_list_remove1 split: if_splits)
    qed
    have "length (remove1 x gs) + length n' = length g' + length (remove1 n0 ns)"
      using Cons.IH [OF run inv] .
    moreover have "length gs = Suc (length (remove1 x gs))"
      using xin length_pos_if_in_set [of x gs] by (simp add: length_remove1)
    moreover have "length ns = Suc (length (remove1 n0 ns))"
      using nin length_pos_if_in_set [of n0 ns] by (simp add: length_remove1)
    ultimately show ?thesis
      by simp
  qed
qed

lemma remove1_filter_distinct: "distinct xs \<Longrightarrow> remove1 x xs = filter (\<lambda>y. y \<noteq> x) xs"
proof (induction xs)
  case Nil
  then show ?case by simp
next
  case (Cons a xs)
  show ?case
  proof (cases "x = a")
    case True
    then have "x \<notin> set xs" using Cons.prems by simp
    then have "filter (\<lambda>y. y \<noteq> x) xs = xs"
      by (induction xs) auto
    then show ?thesis using True by simp
  next
    case False
    then show ?thesis using Cons by auto
  qed
qed

lemma churn_cancel_unique:
  "inj_on (\<lambda>a. (klass a, key a)) G \<Longrightarrow> inj_on (\<lambda>a. (klass a, key a)) N \<Longrightarrow>
   set it \<subseteq> G \<Longrightarrow> set gs \<subseteq> G \<Longrightarrow> set ns \<subseteq> N \<Longrightarrow>
   distinct gs \<Longrightarrow> distinct ns \<Longrightarrow>
   churn_cancel it gs ns =
     (filter (\<lambda>g. \<not> ((\<exists>n \<in> set ns. churn_match g n) \<and> g \<in> set it)) gs,
      filter (\<lambda>n. \<not> (\<exists>g \<in> set it. churn_match g n)) ns)"
proof (induction it arbitrary: gs ns)
  case Nil
  then show ?case by simp
next
  case (Cons x it)
  have xG: "x \<in> G" using Cons.prems(3) by simp
  show ?case
  proof (cases "List.find (\<lambda>n. klass x = klass n \<and> key x = key n) ns")
    case None
    then have nomatch: "\<And>m. m \<in> set ns \<Longrightarrow> \<not> churn_match x m"
      by (auto simp add: find_None_iff churn_match_def)
    have "churn_cancel (x # it) gs ns = churn_cancel it gs ns"
      using None by simp
    also have "\<dots> =
        (filter (\<lambda>g. \<not> ((\<exists>n \<in> set ns. churn_match g n) \<and> g \<in> set it)) gs,
         filter (\<lambda>n. \<not> (\<exists>g \<in> set it. churn_match g n)) ns)"
      using Cons.prems by (intro Cons.IH) auto
    also have "filter (\<lambda>g. \<not> ((\<exists>n \<in> set ns. churn_match g n) \<and> g \<in> set it)) gs =
        filter (\<lambda>g. \<not> ((\<exists>n \<in> set ns. churn_match g n) \<and> g \<in> set (x # it))) gs"
      using nomatch by (intro filter_cong) auto
    also have "filter (\<lambda>n. \<not> (\<exists>g \<in> set it. churn_match g n)) ns =
        filter (\<lambda>n. \<not> (\<exists>g \<in> set (x # it). churn_match g n)) ns"
      using nomatch by (intro filter_cong) auto
    finally show ?thesis .
  next
    case (Some n0)
    have n0: "n0 \<in> set ns" "churn_match x n0"
      using Some by (auto simp add: find_Some_iff churn_match_def)
    have uniq_n: "\<And>m. m \<in> set ns \<Longrightarrow> churn_match x m \<Longrightarrow> m = n0"
    proof -
      fix m
      assume "m \<in> set ns" "churn_match x m"
      then have e: "(klass m, key m) = (klass n0, key n0)" and mN: "m \<in> N" and nN: "n0 \<in> N"
        using n0 Cons.prems(5) by (auto simp add: churn_match_def)
      show "m = n0"
        by (rule inj_onD [OF Cons.prems(2) e mN nN])
    qed
    have uniq_g: "\<And>h. h \<in> G \<Longrightarrow> churn_match h n0 \<Longrightarrow> h = x"
    proof -
      fix h
      assume "h \<in> G" "churn_match h n0"
      then have e: "(klass h, key h) = (klass x, key x)" and hG: "h \<in> G"
        using n0 by (auto simp add: churn_match_def)
      show "h = x"
        by (rule inj_onD [OF Cons.prems(1) e hG xG])
    qed
    have "churn_cancel (x # it) gs ns = churn_cancel it (remove1 x gs) (remove1 n0 ns)"
      using Some by simp
    also have "\<dots> =
        (filter (\<lambda>g. \<not> ((\<exists>n \<in> set (remove1 n0 ns). churn_match g n) \<and> g \<in> set it))
           (remove1 x gs),
         filter (\<lambda>n. \<not> (\<exists>g \<in> set it. churn_match g n)) (remove1 n0 ns))"
      using Cons.prems set_remove1_subset [of x gs] set_remove1_subset [of n0 ns]
      by (intro Cons.IH) (auto simp add: distinct_remove1)
    also have "filter (\<lambda>g. \<not> ((\<exists>n \<in> set (remove1 n0 ns). churn_match g n) \<and> g \<in> set it))
           (remove1 x gs) =
        filter (\<lambda>g. \<not> ((\<exists>n \<in> set ns. churn_match g n) \<and> g \<in> set (x # it))) gs"
    proof -
      have "filter (\<lambda>g. \<not> ((\<exists>n \<in> set (remove1 n0 ns). churn_match g n) \<and> g \<in> set it))
           (remove1 x gs) =
          filter (\<lambda>g. g \<noteq> x \<and>
            \<not> ((\<exists>n \<in> set (remove1 n0 ns). churn_match g n) \<and> g \<in> set it)) gs"
        using Cons.prems(6) by (simp add: remove1_filter_distinct)
      also have "\<dots> =
          filter (\<lambda>g. \<not> ((\<exists>n \<in> set ns. churn_match g n) \<and> g \<in> set (x # it))) gs"
      proof (intro filter_cong refl)
        fix g
        assume "g \<in> set gs"
        then have gG: "g \<in> G" using Cons.prems(4) by auto
        show "(g \<noteq> x \<and>
            \<not> ((\<exists>n \<in> set (remove1 n0 ns). churn_match g n) \<and> g \<in> set it)) =
          (\<not> ((\<exists>n \<in> set ns. churn_match g n) \<and> g \<in> set (x # it)))"
        proof (cases "g = x")
          case True
          then show ?thesis using n0 by auto
        next
          case False
          have "(\<exists>n \<in> set (remove1 n0 ns). churn_match g n) = (\<exists>n \<in> set ns. churn_match g n)"
            using uniq_g [OF gG] False Cons.prems(7) by auto
          then show ?thesis using False by simp
        qed
      qed
      finally show ?thesis .
    qed
    also have "filter (\<lambda>n. \<not> (\<exists>g \<in> set it. churn_match g n)) (remove1 n0 ns) =
        filter (\<lambda>n. \<not> (\<exists>g \<in> set (x # it). churn_match g n)) ns"
    proof -
      have "filter (\<lambda>n. \<not> (\<exists>g \<in> set it. churn_match g n)) (remove1 n0 ns) =
          filter (\<lambda>n. n \<noteq> n0 \<and> \<not> (\<exists>g \<in> set it. churn_match g n)) ns"
        using Cons.prems(7) by (simp add: remove1_filter_distinct)
      also have "\<dots> = filter (\<lambda>n. \<not> (\<exists>g \<in> set (x # it). churn_match g n)) ns"
      proof (intro filter_cong refl)
        fix n
        assume nin: "n \<in> set ns"
        have "churn_match x n \<longleftrightarrow> n = n0"
          using uniq_n [OF nin] n0(2) by blast
        then show "(n \<noteq> n0 \<and> \<not> (\<exists>g \<in> set it. churn_match g n)) =
            (\<not> (\<exists>g \<in> set (x # it). churn_match g n))"
          by auto
      qed
      finally show ?thesis .
    qed
    finally show ?thesis .
  qed
qed


lemma notify_service_unfold:
  "notify_service env pn sa ga na desc =
     (let service_alerts = filter (\<lambda>alert.
              product_type env \<in> set (products (klass alert)) \<and>
              get_alert_level alert (classes env) \<ge> svc_level desc \<and>
              get_alert_policy alert (classes env) \<noteq> ''NEVER'') sa;
          g0 = filter (\<lambda>alert.
              product_type env \<in> set (products (klass alert)) \<and>
              get_alert_level alert (classes env) \<ge> svc_level desc \<and>
              get_alert_policy alert (classes env) = pn) ga;
          n0 = filter (\<lambda>alert.
              product_type env \<in> set (products (klass alert)) \<and>
              get_alert_level alert (classes env) \<ge> svc_level desc \<and>
              get_alert_policy alert (classes env) = pn) na;
          cc = churn_cancel g0 g0 n0
      in if fst cc = [] \<and> snd cc = [] then []
         else
           (case ALERT_SERVICES_FACTORIES env (svc_type desc) of
              None \<Rightarrow> [LogError (''Alert service does not exist: '' @ svc_type desc)]
            | Some factory \<Rightarrow>
                (case factory (svc_attributes desc) of
                   None \<Rightarrow> [LogError (''Error creating alert service '' @ svc_type desc)]
                 | Some alert_service_send \<Rightarrow>
                     (if filter not_dismissed service_alerts \<noteq> [] \<or>
                         filter not_dismissed (fst cc) \<noteq> [] \<or>
                         filter not_dismissed (snd cc) \<noteq> []
                      then
                        Send (svc_type desc) (filter not_dismissed service_alerts)
                          (filter not_dismissed (fst cc)) (filter not_dismissed (snd cc)) #
                        (if alert_service_send (filter not_dismissed service_alerts)
                              (filter not_dismissed (fst cc)) (filter not_dismissed (snd cc))
                         then []
                         else [LogError (''Error in alert service '' @ svc_type desc)])
                      else []))))"
  unfolding notify_service_def Let_def case_prod_beta ..


lemma notify_service_Send:
  assumes "Send t a g n \<in> set (notify_service env pn sa ga na desc)"
  shows "t = svc_type desc \<and>
   a = filter not_dismissed (filter (\<lambda>alert.
              product_type env \<in> set (products (klass alert)) \<and>
              get_alert_level alert (classes env) \<ge> svc_level desc \<and>
              get_alert_policy alert (classes env) \<noteq> ''NEVER'') sa) \<and>
   g = filter not_dismissed (fst (churn_cancel
         (filter (\<lambda>alert.
              product_type env \<in> set (products (klass alert)) \<and>
              get_alert_level alert (classes env) \<ge> svc_level desc \<and>
              get_alert_policy alert (classes env) = pn) ga)
         (filter (\<lambda>alert.
              product_type env \<in> set (products (klass alert)) \<and>
              get_alert_level alert (classes env) \<ge> svc_level desc \<and>
              get_alert_policy alert (classes env) = pn) ga)
         (filter (\<lambda>alert.
              product_type env \<in> set (products (klass alert)) \<and>
              get_alert_level alert (classes env) \<ge> svc_level desc \<and>
              get_alert_policy alert (classes env) = pn) na))) \<and>
   n = filter not_dismissed (snd (churn_cancel
         (filter (\<lambda>alert.
              product_type env \<in> set (products (klass alert)) \<and>
              get_alert_level alert (classes env) \<ge> svc_level desc \<and>
              get_alert_policy alert (classes env) = pn) ga)
         (filter (\<lambda>alert.
              product_type env \<in> set (products (klass alert)) \<and>
              get_alert_level alert (classes env) \<ge> svc_level desc \<and>
              get_alert_policy alert (classes env) = pn) ga)
         (filter (\<lambda>alert.
              product_type env \<in> set (products (klass alert)) \<and>
              get_alert_level alert (classes env) \<ge> svc_level desc \<and>
              get_alert_policy alert (classes env) = pn) na)))"
proof -
  define service_alerts where "service_alerts = filter (\<lambda>alert.
              product_type env \<in> set (products (klass alert)) \<and>
              get_alert_level alert (classes env) \<ge> svc_level desc \<and>
              get_alert_policy alert (classes env) \<noteq> ''NEVER'') sa"
  define g0 where "g0 = filter (\<lambda>alert.
              product_type env \<in> set (products (klass alert)) \<and>
              get_alert_level alert (classes env) \<ge> svc_level desc \<and>
              get_alert_policy alert (classes env) = pn) ga"
  define n0 where "n0 = filter (\<lambda>alert.
              product_type env \<in> set (products (klass alert)) \<and>
              get_alert_level alert (classes env) \<ge> svc_level desc \<and>
              get_alert_policy alert (classes env) = pn) na"
  define cc where "cc = churn_cancel g0 g0 n0"
  have "Send t a g n \<in> set
     (if fst cc = [] \<and> snd cc = [] then []
         else
           (case ALERT_SERVICES_FACTORIES env (svc_type desc) of
              None \<Rightarrow> [LogError (''Alert service does not exist: '' @ svc_type desc)]
            | Some factory \<Rightarrow>
                (case factory (svc_attributes desc) of
                   None \<Rightarrow> [LogError (''Error creating alert service '' @ svc_type desc)]
                 | Some alert_service_send \<Rightarrow>
                     (if filter not_dismissed service_alerts \<noteq> [] \<or>
                         filter not_dismissed (fst cc) \<noteq> [] \<or>
                         filter not_dismissed (snd cc) \<noteq> []
                      then
                        Send (svc_type desc) (filter not_dismissed service_alerts)
                          (filter not_dismissed (fst cc)) (filter not_dismissed (snd cc)) #
                        (if alert_service_send (filter not_dismissed service_alerts)
                              (filter not_dismissed (fst cc)) (filter not_dismissed (snd cc))
                         then []
                         else [LogError (''Error in alert service '' @ svc_type desc)])
                      else []))))"
    using assms
    unfolding notify_service_unfold Let_def service_alerts_def g0_def n0_def cc_def .
  then have "t = svc_type desc \<and> a = filter not_dismissed service_alerts \<and>
      g = filter not_dismissed (fst cc) \<and> n = filter not_dismissed (snd cc)"
    by (auto split: if_splits option.splits)
  then show ?thesis
    unfolding service_alerts_def g0_def n0_def cc_def by simp
qed


lemma churn_cancel_same:
  "set (fst (churn_cancel gs gs ns)) \<subseteq> set gs \<and>
   set (snd (churn_cancel gs gs ns)) \<subseteq> set ns \<and>
   length gs + length (snd (churn_cancel gs gs ns)) =
     length (fst (churn_cancel gs gs ns)) + length ns \<and>
   (\<forall>x \<in> set (fst (churn_cancel gs gs ns)).
      \<forall>y \<in> set (snd (churn_cancel gs gs ns)). \<not> churn_match x y)"
proof -
  obtain g' n' where r: "churn_cancel gs gs ns = (g', n')"
    by (cases "churn_cancel gs gs ns")
  have s: "set g' \<subseteq> set gs \<and> set n' \<subseteq> set ns"
    using r by (rule churn_cancel_subset)
  have l: "length gs + length n' = length g' + length ns"
    using r by (rule churn_cancel_length) simp
  have p: "\<And>x y. x \<in> set g' \<Longrightarrow> y \<in> set n' \<Longrightarrow> \<not> churn_match x y"
    using r by (rule churn_cancel_no_pair) simp
  show ?thesis
    using s l p by (simp add: r)
qed

lemma notify_service_ex_churn:
  "notify_service ex_env ''IMMEDIATELY'' [ex_new_a] [ex_gone_a, ex_gone_b] [ex_new_a] ex_mail =
     [Send ''Mail'' [ex_new_a] [ex_gone_b] []]"
  by (simp add: notify_service_unfold ex_env_def ex_mail_def ex_new_a_def ex_gone_a_def
      ex_gone_b_def ex_stored_def DiskFail_def ex_base_def get_alert_level_def
      get_alert_policy_def DEFAULT_POLICY_def not_dismissed_def Let_def)

text \<open>
  The property as the specification states it fails where two gone alerts share class and key with one
  new alert: the first gone alert cancels the new one, and the second is sent as gone
  although it forms, with that new alert, a pair of the same class and key.
\<close>

theorem churn_cancellation_every_pair_counterexample:
  "klass ex_gone_b = klass ex_new_a \<and> key ex_gone_b = key ex_new_a \<and>
   ex_gone_b \<in> set [ex_gone_a, ex_gone_b] \<and> ex_new_a \<in> set [ex_new_a] \<and>
   churn_cancel [ex_gone_a, ex_gone_b] [ex_gone_a, ex_gone_b] [ex_new_a] = ([ex_gone_b], []) \<and>
   notify_service ex_env ''IMMEDIATELY'' [ex_new_a] [ex_gone_a, ex_gone_b] [ex_new_a] ex_mail =
     [Send ''Mail'' [ex_new_a] [ex_gone_b] []]"
  by (simp add: notify_service_unfold ex_env_def ex_mail_def ex_new_a_def ex_gone_a_def
      ex_gone_b_def ex_stored_def DiskFail_def ex_base_def get_alert_level_def
      get_alert_policy_def DEFAULT_POLICY_def not_dismissed_def Let_def)

lemma immediately_effects_no_Send:
  "Send t a g n \<notin> set (immediately_effects env gone_alerts new_alerts)"
  by (auto simp add: immediately_effects_def Let_def split: option.splits if_splits)

lemma send_policy_Send:
  assumes "Send t a g n \<in> set (snd (send_policy env now sa np))"
  shows "\<exists>desc \<in> set (alertservices env). svc_enabled desc \<and>
     Send t a g n \<in> set (notify_service env (fst np) sa
        (fst (fst (receive_alerts (snd np) now sa)))
        (snd (fst (receive_alerts (snd np) now sa))) desc)"
proof -
  have "snd (send_policy env now sa np) =
      concat (map (notify_service env (fst np) sa
        (fst (fst (receive_alerts (snd np) now sa)))
        (snd (fst (receive_alerts (snd np) now sa))))
        (filter svc_enabled (alertservices env))) @
      (if fst np = ''IMMEDIATELY''
       then immediately_effects env (fst (fst (receive_alerts (snd np) now sa)))
              (snd (fst (receive_alerts (snd np) now sa)))
       else [])"
    by (simp add: send_policy_def Let_def case_prod_beta)
  then show ?thesis
    using assms immediately_effects_no_Send by (auto split: if_splits)
qed

lemma send_alerts_Send:
  assumes "Send t a g n \<in> set (drop (length (effects s)) (effects (send_alerts env s)))"
  shows "\<exists>np \<in> set (policies s).
     Send t a g n \<in> set (snd (send_policy env (utcnow env (ticks s)) (alerts s) np))"
  using assms by (auto simp add: send_alerts_def Let_def split: if_splits)

lemma send_alerts_ex_two:
  "effects (send_alerts ex_env ex_state_two) =
     [Send ''Mail'' [ex_second] [] [ex_second],
      Event ''ADDED'' (Some ''U''), Event ''ADDED'' (Some ''W'')]"
  by (simp add: send_alerts_def send_policy_def receive_alerts_def alerts_by_uuid_def
      notify_service_unfold immediately_effects_def should_show_alert_def get_alert_class_def
      ex_state_two_def ex_state_def initial_policies_def AlertPolicy_init_def
      ex_env_def ex_mail_def ex_second_def ex_stored_def DiskFail_def ex_base_def
      get_alert_level_def get_alert_policy_def DEFAULT_POLICY_def not_dismissed_def Let_def)

lemma notify_service_named:
  "notify_service env pn sa ga na desc =
     (if fst (service_churn env pn desc ga na) = [] \<and>
         snd (service_churn env pn desc ga na) = [] then []
      else
        (case ALERT_SERVICES_FACTORIES env (svc_type desc) of
           None \<Rightarrow> [LogError (''Alert service does not exist: '' @ svc_type desc)]
         | Some factory \<Rightarrow>
             (case factory (svc_attributes desc) of
                None \<Rightarrow> [LogError (''Error creating alert service '' @ svc_type desc)]
              | Some alert_service_send \<Rightarrow>
                  (if filter not_dismissed (service_alerts_of env desc sa) \<noteq> [] \<or>
                      filter not_dismissed (fst (service_churn env pn desc ga na)) \<noteq> [] \<or>
                      filter not_dismissed (snd (service_churn env pn desc ga na)) \<noteq> []
                   then
                     Send (svc_type desc) (filter not_dismissed (service_alerts_of env desc sa))
                       (filter not_dismissed (fst (service_churn env pn desc ga na)))
                       (filter not_dismissed (snd (service_churn env pn desc ga na))) #
                     (if alert_service_send (filter not_dismissed (service_alerts_of env desc sa))
                           (filter not_dismissed (fst (service_churn env pn desc ga na)))
                           (filter not_dismissed (snd (service_churn env pn desc ga na)))
                      then []
                      else [LogError (''Error in alert service '' @ svc_type desc)])
                   else []))))"
  unfolding notify_service_unfold Let_def service_churn_def policy_alerts_of_def
    service_alerts_of_def ..

lemma notify_service_ex_facts:
  "service_alerts_of ex_env ex_mail [ex_new_a] = [ex_new_a]"
  "not_dismissed ex_new_a"
  "service_churn ex_env ''IMMEDIATELY'' ex_mail [] [] = ([], [])"
  "service_churn ex_env ''IMMEDIATELY'' ex_mail [ex_gone_a, ex_gone_b] [ex_new_a] =
     ([ex_gone_b], [])"
  "not_dismissed ex_gone_b"
  "ALERT_SERVICES_FACTORIES ex_env (svc_type ex_mail) = Some (\<lambda>attributes. Some (\<lambda>a g n. True))"
  by (simp_all add: service_alerts_of_def service_churn_def policy_alerts_of_def
      ex_env_def ex_mail_def ex_new_a_def ex_gone_a_def
      ex_gone_b_def ex_stored_def DiskFail_def ex_base_def get_alert_level_def
      get_alert_policy_def DEFAULT_POLICY_def not_dismissed_def)

text \<open>
  C8. Dismissed alerts are suppressed. In every invocation of a backend's \<open>send\<close>, by the
  body of the loop for one service as in a whole dispatch pass, none of the three
  arguments (the active alerts, the gone alerts, the new alerts) holds an alert whose
  dismissed flag is true.
\<close>

theorem dismissed_alerts_suppressed:
  "(\<forall>t a g n. Send t a g n \<in> set (notify_service env pn sa ga na desc) \<longrightarrow>
      (\<forall>x \<in> set a \<union> set g \<union> set n. dismissed x \<noteq> Some True)) \<and>
   (\<forall>t a g n.
      Send t a g n \<in> set (drop (length (effects s)) (effects (send_alerts env' s))) \<longrightarrow>
      (\<forall>x \<in> set a \<union> set g \<union> set n. dismissed x \<noteq> Some True))"
proof -
  have one: "\<And>env pn sa ga na desc t a g n.
      Send t a g n \<in> set (notify_service env pn sa ga na desc) \<Longrightarrow>
      \<forall>x \<in> set a \<union> set g \<union> set n. dismissed x \<noteq> Some True"
  proof -
    fix env pn sa ga na desc t a g n
    assume m: "Send t a g n \<in> set (notify_service env pn sa ga na desc)"
    obtain a0 g0 n0 where "a = filter not_dismissed a0" "g = filter not_dismissed g0"
        "n = filter not_dismissed n0"
      using notify_service_Send [OF m] by blast
    then show "\<forall>x \<in> set a \<union> set g \<union> set n. dismissed x \<noteq> Some True"
      by (auto simp add: not_dismissed_def)
  qed
  have pass: "\<And>t a g n.
      Send t a g n \<in> set (drop (length (effects s)) (effects (send_alerts env' s))) \<Longrightarrow>
      \<forall>x \<in> set a \<union> set g \<union> set n. dismissed x \<noteq> Some True"
  proof -
    fix t a g n
    assume "Send t a g n \<in> set (drop (length (effects s)) (effects (send_alerts env' s)))"
    then obtain np where
      "Send t a g n \<in> set (snd (send_policy env' (utcnow env' (ticks s)) (alerts s) np))"
      using send_alerts_Send by blast
    then obtain desc where "Send t a g n \<in> set (notify_service env' (fst np) (alerts s)
        (fst (fst (receive_alerts (snd np) (utcnow env' (ticks s)) (alerts s))))
        (snd (fst (receive_alerts (snd np) (utcnow env' (ticks s)) (alerts s)))) desc)"
      using send_policy_Send by blast
    then show "\<forall>x \<in> set a \<union> set g \<union> set n. dismissed x \<noteq> Some True"
      by (rule one)
  qed
  show ?thesis
    using one pass by blast
qed

theorem dismissed_alerts_suppressed_witness:
  "Send ''Mail'' [ex_second] [] [ex_second] \<in>
     set (drop (length (effects ex_state_two)) (effects (send_alerts ex_env ex_state_two))) \<and>
   ex_stored \<in> set (alerts ex_state_two) \<and> dismissed ex_stored = Some True \<and>
   dismissed ex_second \<noteq> Some True"
proof -
  have m: "Send ''Mail'' [ex_second] [] [ex_second] \<in>
     set (drop (length (effects ex_state_two)) (effects (send_alerts ex_env ex_state_two)))"
    unfolding send_alerts_ex_two by (simp add: ex_state_two_def ex_state_def)
  have "\<forall>x \<in> set [ex_second] \<union> set [] \<union> set [ex_second]. dismissed x \<noteq> Some True"
    using dismissed_alerts_suppressed
            [of ex_env "''IMMEDIATELY''" "[]" "[]" "[]" ex_mail ex_state_two ex_env] m
    by blast
  then have d: "dismissed ex_second \<noteq> Some True"
    by simp
  have s: "ex_stored \<in> set (alerts ex_state_two) \<and> dismissed ex_stored = Some True"
    by (simp add: ex_state_two_def ex_stored_def)
  show ?thesis
    using m d s by blast
qed

text \<open>
  C7 (as amended). A service is skipped when, after the filters and the churn loop, its
  gone and its new alerts are both empty, whatever its filtered current alerts are:
  nothing is constructed, sent or logged. When one of the two is not empty and the
  backend can be constructed, \<open>send\<close> is invoked exactly when, once the dismissed
  alerts are dropped, one of the three lists is not empty.
\<close>

theorem service_skip_condition:
  "(fst (service_churn env pn desc ga na) = [] \<and> snd (service_churn env pn desc ga na) = [] \<longrightarrow>
      notify_service env pn sa ga na desc = []) \<and>
   (\<forall>factory alert_service_send.
      \<not> (fst (service_churn env pn desc ga na) = [] \<and>
         snd (service_churn env pn desc ga na) = []) \<longrightarrow>
      ALERT_SERVICES_FACTORIES env (svc_type desc) = Some factory \<longrightarrow>
      factory (svc_attributes desc) = Some alert_service_send \<longrightarrow>
      ((\<exists>a g n. Send (svc_type desc) a g n \<in> set (notify_service env pn sa ga na desc)) \<longleftrightarrow>
       (filter not_dismissed (service_alerts_of env desc sa) \<noteq> [] \<or>
        filter not_dismissed (fst (service_churn env pn desc ga na)) \<noteq> [] \<or>
        filter not_dismissed (snd (service_churn env pn desc ga na)) \<noteq> [])))"
  unfolding notify_service_named
  by (auto split: if_splits option.splits)

theorem service_skip_condition_witness:
  "service_churn ex_env ''IMMEDIATELY'' ex_mail [] [] = ([], []) \<and>
   notify_service ex_env ''IMMEDIATELY'' [ex_new_a] [] [] ex_mail = [] \<and>
   service_churn ex_env ''IMMEDIATELY'' ex_mail [ex_gone_a, ex_gone_b] [ex_new_a] =
     ([ex_gone_b], []) \<and>
   ALERT_SERVICES_FACTORIES ex_env (svc_type ex_mail) =
     Some (\<lambda>attributes. Some (\<lambda>a g n. True)) \<and>
   (\<exists>a g n. Send (svc_type ex_mail) a g n \<in>
      set (notify_service ex_env ''IMMEDIATELY'' [ex_new_a] [ex_gone_a, ex_gone_b] [ex_new_a]
             ex_mail))"
proof -
  have skip: "notify_service ex_env ''IMMEDIATELY'' [ex_new_a] [] [] ex_mail = []"
    using service_skip_condition [of ex_env "''IMMEDIATELY''" ex_mail "[]" "[]" "[ex_new_a]"]
    by (simp add: notify_service_ex_facts)
  have sent: "\<exists>a g n. Send (svc_type ex_mail) a g n \<in>
      set (notify_service ex_env ''IMMEDIATELY'' [ex_new_a] [ex_gone_a, ex_gone_b] [ex_new_a]
             ex_mail)"
    using service_skip_condition
            [of ex_env "''IMMEDIATELY''" ex_mail "[ex_gone_a, ex_gone_b]" "[ex_new_a]"
               "[ex_new_a]"]
    by (simp add: notify_service_ex_facts)
  show ?thesis
    using skip sent by (simp add: notify_service_ex_facts)
qed

text \<open>
  The property as the specification states it fails: a service with an active, undismissed current alert
  is skipped when no alert is gone or new, for the loop body alone and for a second
  dispatch pass over an unchanged store.
\<close>

theorem service_skipped_with_current_alerts_counterexample:
  "filter not_dismissed (service_alerts_of ex_env ex_mail [ex_new_a]) = [ex_new_a] \<and>
   notify_service ex_env ''IMMEDIATELY'' [ex_new_a] [] [] ex_mail = [] \<and>
   filter not_dismissed (service_alerts_of ex_env ex_mail
     (alerts (send_alerts ex_env ex_state_two))) = [ex_second] \<and>
   drop (length (effects (send_alerts ex_env ex_state_two)))
     (effects (send_alerts ex_env (send_alerts ex_env ex_state_two))) = []"
  by (simp add: send_alerts_def send_policy_def receive_alerts_def alerts_by_uuid_def
      notify_service_unfold immediately_effects_def should_show_alert_def get_alert_class_def
      service_alerts_of_def naive_def
      ex_state_two_def ex_state_def initial_policies_def AlertPolicy_init_def
      ex_env_def ex_mail_def ex_second_def ex_stored_def ex_new_a_def DiskFail_def ex_base_def
      get_alert_level_def get_alert_policy_def DEFAULT_POLICY_def not_dismissed_def Let_def)

section \<open>Properties of the listing\<close>

lemma count_list_insort_key:
  "count_list (insort_key k x xs) a = count_list (x # xs) a"
  by (induction xs) auto

lemma count_list_sort_key: "count_list (sort_key k xs) a = count_list xs a"
  by (induction xs) (simp_all add: count_list_insort_key)

lemma count_list_filter:
  "count_list (filter P xs) a = (if P a then count_list xs a else 0)"
  by (induction xs) auto

lemma should_show_alert_iff:
  "should_show_alert env alert \<longleftrightarrow>
     product_type env \<in> set (products (klass alert)) \<and>
     get_alert_policy alert (classes env) \<noteq> ''NEVER''"
  by (auto simp add: should_show_alert_def get_alert_class_def get_alert_policy_def
      DEFAULT_POLICY_def split: option.splits)

lemma list_key_le:
  "list_key env a \<le> list_key env b \<longleftrightarrow>
     get_alert_level a (classes env) > get_alert_level b (classes env) \<or>
     (get_alert_level a (classes env) = get_alert_level b (classes env) \<and>
      (title (klass a) < title (klass b) \<or>
       (title (klass a) = title (klass b) \<and> first_seen a \<le> first_seen b)))"
  by (auto simp add: list_key_def less_eq_prod_def less_prod_def)

lemma alert_list_ex:
  "alert_list ex_env_never ex_state_list = Inr [ex_failed, ex_second, ex_stored]"
  by (simp add: alert_list_def list_key_def first_seen_def naive_datetime_def
      should_show_alert_def get_alert_class_def get_alert_level_def
      ex_env_never_def ex_env_def ex_state_list_def ex_state_def
      ex_failed_def ex_quiet_def ex_foreign_def ex_second_def ex_stored_def
      Alert_init_def AlertSourceRunFailedAlertClass_def Quiet_def Foreign_def DiskFail_def
      ex_base_def naive_def)

text \<open>
  C9 (as amended). Over a store of alerts with naive first-seen timestamps, the list
  operation returns the alerts in the order of descending effective severity, then
  ascending class title, then ascending first-seen timestamp, and it returns exactly the
  alerts of the store (each as often as the store holds it) whose class applies to the
  current product type and whose effective policy is not \<open>NEVER\<close>. Whether the class is
  marked \<open>exclude_from_list\<close> plays no part.
\<close>

theorem alert_list_sorted_filtered:
  "list_all naive_datetime (alerts s) \<longrightarrow>
     (\<exists>r. alert_list env s = Inr r \<and>
        sorted_wrt (\<lambda>a b.
           get_alert_level a (classes env) > get_alert_level b (classes env) \<or>
           (get_alert_level a (classes env) = get_alert_level b (classes env) \<and>
            (title (klass a) < title (klass b) \<or>
             (title (klass a) = title (klass b) \<and> first_seen a \<le> first_seen b)))) r \<and>
        (\<forall>a. count_list r a =
           (if product_type env \<in> set (products (klass a)) \<and>
               get_alert_policy a (classes env) \<noteq> ''NEVER''
            then count_list (alerts s) a else 0)))"
proof
  assume n: "list_all naive_datetime (alerts s)"
  let ?r = "filter (should_show_alert env) (sort_key (list_key env) (alerts s))"
  have r: "alert_list env s = Inr ?r"
    using n by (simp add: alert_list_def)
  have "sorted (map (list_key env) (sort_key (list_key env) (alerts s)))"
    by (rule sorted_sort_key)
  then have "sorted_wrt (\<lambda>a b. list_key env a \<le> list_key env b)
      (sort_key (list_key env) (alerts s))"
    by (simp only: sorted_map)
  then have "sorted_wrt (\<lambda>a b. list_key env a \<le> list_key env b) ?r"
    by (rule sorted_wrt_filter)
  then have o: "sorted_wrt (\<lambda>a b.
           get_alert_level a (classes env) > get_alert_level b (classes env) \<or>
           (get_alert_level a (classes env) = get_alert_level b (classes env) \<and>
            (title (klass a) < title (klass b) \<or>
             (title (klass a) = title (klass b) \<and> first_seen a \<le> first_seen b)))) ?r"
    by (simp only: list_key_le)
  have c: "\<forall>a. count_list ?r a =
           (if product_type env \<in> set (products (klass a)) \<and>
               get_alert_policy a (classes env) \<noteq> ''NEVER''
            then count_list (alerts s) a else 0)"
    by (simp add: count_list_filter count_list_sort_key should_show_alert_iff)
  show "\<exists>r. alert_list env s = Inr r \<and>
        sorted_wrt (\<lambda>a b.
           get_alert_level a (classes env) > get_alert_level b (classes env) \<or>
           (get_alert_level a (classes env) = get_alert_level b (classes env) \<and>
            (title (klass a) < title (klass b) \<or>
             (title (klass a) = title (klass b) \<and> first_seen a \<le> first_seen b)))) r \<and>
        (\<forall>a. count_list r a =
           (if product_type env \<in> set (products (klass a)) \<and>
               get_alert_policy a (classes env) \<noteq> ''NEVER''
            then count_list (alerts s) a else 0))"
    using r o c by blast
qed

theorem alert_list_sorted_filtered_witness:
  "list_all naive_datetime (alerts ex_state_list) \<and>
   alert_list ex_env_never ex_state_list = Inr [ex_failed, ex_second, ex_stored] \<and>
   count_list [ex_failed, ex_second, ex_stored] ex_quiet = 0 \<and>
   get_alert_policy ex_quiet (classes ex_env_never) = ''NEVER''"
proof -
  have n: "list_all naive_datetime (alerts ex_state_list)"
    by (simp add: naive_datetime_def ex_state_list_def ex_state_def
        ex_failed_def ex_quiet_def ex_foreign_def ex_second_def ex_stored_def naive_def)
  have p: "get_alert_policy ex_quiet (classes ex_env_never) = ''NEVER''"
    by (simp add: get_alert_policy_def ex_env_never_def ex_env_def ex_quiet_def Quiet_def
        ex_base_def)
  obtain r where r: "alert_list ex_env_never ex_state_list = Inr r"
    and c: "\<forall>a. count_list r a =
           (if product_type ex_env_never \<in> set (products (klass a)) \<and>
               get_alert_policy a (classes ex_env_never) \<noteq> ''NEVER''
            then count_list (alerts ex_state_list) a else 0)"
    using alert_list_sorted_filtered [of ex_state_list ex_env_never] n by blast
  have e: "r = [ex_failed, ex_second, ex_stored]"
    using r by (simp add: alert_list_ex)
  have "count_list r ex_quiet = 0"
    using c p by simp
  then show ?thesis
    using n p e alert_list_ex by simp
qed

text \<open>
  The property as the specification states it fails: an alert of the class of failed checks, which is
  marked \<open>exclude_from_list\<close>, is listed.
\<close>

theorem alert_list_hidden_class_counterexample:
  "exclude_from_list (klass ex_failed) \<and>
   ex_failed \<in> set (alerts ex_state_list) \<and>
   alert_list ex_env_never ex_state_list = Inr [ex_failed, ex_second, ex_stored]"
  by (simp add: alert_list_ex)
     (simp add: ex_failed_def ex_state_list_def ex_state_def Alert_init_def
        AlertSourceRunFailedAlertClass_def)

section \<open>Properties of the scheduling pass\<close>

lemma policy_frame_assign_tracked [simp]:
  "policy_frame (assign_tracked assigned s) = policy_frame s"
  by (simp add: policy_frame_def assign_tracked_def comp_def)

lemma policy_frame_simps [simp]:
  "policy_frame (s\<lparr>ticks := t\<rparr>) = policy_frame s"
  "policy_frame (s\<lparr>alerts := xs\<rparr>) = policy_frame s"
  "policy_frame (s\<lparr>alerts_oid := os\<rparr>) = policy_frame s"
  "policy_frame (s\<lparr>next_oid := n\<rparr>) = policy_frame s"
  "policy_frame (s\<lparr>effects := es\<rparr>) = policy_frame s"
  "policy_frame (s\<lparr>alert_source_last_run := lr\<rparr>) = policy_frame s"
  "policy_frame (s\<lparr>sources_run_times := rt\<rparr>) = policy_frame s"
  "policy_frame (s\<lparr>alert_sources_errors := er\<rparr>) = policy_frame s"
  "policy_frame (s\<lparr>sources_locks := sl\<rparr>) = policy_frame s"
  "policy_frame (s\<lparr>blocked_sources := bs\<rparr>) = policy_frame s"
  by (simp_all add: policy_frame_def)

lemma assign_tracked_fields [simp]:
  "effects (assign_tracked assigned s) = effects s"
  "SEND_ALERTS_ON_READY (assign_tracked assigned s) = SEND_ALERTS_ON_READY s"
  "alerts (assign_tracked assigned s) = alerts s"
  "ticks (assign_tracked assigned s) = ticks s"
  by (simp_all add: assign_tracked_def)

lemma only_logged_refl: "only_logged s s"
  by (simp add: only_logged_def)

lemma only_logged_trans: "only_logged s s1 \<Longrightarrow> only_logged s1 s2 \<Longrightarrow> only_logged s s2"
  by (auto simp add: only_logged_def)

lemma only_logged_unblock_source: "only_logged s (unblock_source k s)"
  by (simp add: only_logged_def unblock_source_def split: option.splits)

lemma only_logged_ticks: "only_logged s (s\<lparr>ticks := t\<rparr>)"
  by (simp add: only_logged_def)

lemma only_logged_sweep_locks: "only_logged s (sweep_locks env ls s)"
proof (induction ls arbitrary: s)
  case Nil
  then show ?case by (simp add: only_logged_refl)
next
  case (Cons l ls)
  obtain k source_lock where l: "l = (k, source_lock)"
    by (cases l)
  let ?s1 = "s\<lparr>ticks := Suc (ticks s)\<rparr>"
  let ?s2 = "if expires_at source_lock \<le> monotonic env (ticks s)
             then unblock_source k ?s1 else ?s1"
  have "only_logged s ?s2"
    using only_logged_trans [OF only_logged_ticks only_logged_unblock_source]
    by (simp add: only_logged_ticks)
  moreover have "only_logged ?s2 (sweep_locks env ls ?s2)"
    by (rule Cons.IH)
  ultimately have "only_logged s (sweep_locks env ls ?s2)"
    by (rule only_logged_trans)
  then show ?case
    by (simp add: l Let_def)
qed

lemma only_logged_run_source: "only_logged s (snd (run_source env n s))"
  by (auto simp add: only_logged_def run_source_def Let_def
      split: option.splits check_outcome.splits)

lemma backup_alerts_logs: "list_all is_log (snd (backup_alerts env src locked stored))"
  by (simp add: backup_alerts_def Let_def split: remote_outcome.splits sum.splits)

lemma only_logged_finish_alert_source:
  "only_logged s (finish_alert_source env mn bn rb src locked reused xs s)"
  by (simp add: only_logged_def finish_alert_source_def Let_def case_prod_beta
      backup_alerts_logs)

lemma only_logged_run_alert_source:
  "run_alert_source env mn bn rb rf src s = Inr s' \<Longrightarrow> only_logged s s'"
proof -
  assume r: "run_alert_source env mn bn rb rf src s = Inr s'"
  let ?s1 = "s\<lparr>alert_source_last_run :=
                  AList.update (src_name src) (utcnow env (Suc (ticks s)))
                    (alert_source_last_run s),
                ticks := Suc (Suc (ticks s))\<rparr>"
  have s1: "only_logged s ?s1"
    by (simp add: only_logged_def)
  have lg: "\<And>m. only_logged ?s1 (?s1\<lparr>effects := effects ?s1 @ [LogDebug m]\<rparr>)"
    by (simp add: only_logged_def)
  have lt: "\<And>m. only_logged ?s1 (?s1\<lparr>effects := effects ?s1 @ [LogTrace m]\<rparr>)"
    by (simp add: only_logged_def)
  have rs: "\<And>m. only_logged ?s1
      (snd (run_source env (src_name src) (?s1\<lparr>effects := effects ?s1 @ [LogTrace m]\<rparr>)))"
    using only_logged_trans [OF lt only_logged_run_source] .
  have fin: "\<And>s0 locked reused xs. only_logged ?s1 s0 \<Longrightarrow>
      only_logged s (finish_alert_source env mn bn rb src locked reused xs s0)"
    using only_logged_trans [OF s1] only_logged_trans only_logged_finish_alert_source by blast
  show ?thesis
    using r fin [OF lg] fin [OF rs] only_logged_refl [of s] only_logged_ticks [of s]
    by (auto simp add: run_alert_source_def Let_def split: if_splits sum.splits)
qed

lemma only_logged_run_sources:
  "run_sources env mn bn rb rf srcs s = Inr s' \<Longrightarrow> only_logged s s'"
proof (induction srcs arbitrary: s)
  case Nil
  then show ?case by (simp add: only_logged_refl)
next
  case (Cons src srcs)
  then obtain s1 where a: "run_alert_source env mn bn rb rf src s = Inr s1"
    and b: "run_sources env mn bn rb rf srcs s1 = Inr s'"
    by (auto split: sum.splits)
  show ?case
    using only_logged_trans [OF only_logged_run_alert_source [OF a] Cons.IH [OF b]] .
qed

lemma only_logged_run_alerts: "run_alerts env s = Inr s' \<Longrightarrow> only_logged s s'"
proof -
  assume r: "run_alerts env s = Inr s'"
  let ?s1 = "s\<lparr>ticks := Suc (ticks s)\<rparr>"
  let ?s2 = "sweep_locks env (sources_locks ?s1) ?s1"
  have "only_logged s ?s2"
    using only_logged_trans [OF only_logged_ticks only_logged_sweep_locks] .
  moreover obtain mn bn rb rf where "run_sources env mn bn rb rf (ALERT_SOURCES env) ?s2 = Inr s'"
    using r by (simp add: run_alerts_def Let_def)
  ultimately show ?thesis
    using only_logged_run_sources only_logged_trans by blast
qed

lemma only_logged_expire_alerts: "expire_alerts env s = Inr s' \<Longrightarrow> only_logged s s'"
  by (auto simp add: expire_alerts_def only_logged_def split: sum.splits)

lemma alerts_finish_alert_source:
  "alerts (finish_alert_source env mn bn rb src locked reused xs s) =
     filter (\<lambda>a. source a \<noteq> Some (src_name src)) (alerts s) @
     fst (handle_alerts env (alerts s) (ticks s)
            (map (\<lambda>alert. alert\<lparr>node := Some mn\<rparr>) xs @
             map (\<lambda>alert. alert\<lparr>node := Some bn\<rparr>)
               (if rb \<and> run_on_backup_node src
                then snd (fst (backup_alerts env src locked
                       (filter (\<lambda>alert. node alert = Some bn \<and>
                                         source alert = Some (src_name src)) (alerts s))))
                else [])))"
  by (simp add: finish_alert_source_def Let_def case_prod_beta)

lemma run_alerts_ex:
  "map_sum id alerts (run_alerts ex_env_ok ex_state_two) =
     Inr [ex_observed\<lparr>uuid := Some ''U'', datetime := Some (naive 100),
            last_occurrence := Some (naive 1006), dismissed := Some True\<rparr>]"
  by (simp add: run_alerts_def run_alert_source_def alerts_finish_alert_source run_source_def
      find_source_def is_blocked_def last_run_def handle_alert_def existing_alert_def
      same_identity_def record_run_time_def get_stat_def default_stat_def
      ex_env_ok_def ex_env_def ex_source_def ex_state_two_def ex_state_def
      ex_observed_def ex_second_def ex_stored_def naive_def Let_def)

lemma should_run_ex:
  "should_run_or_send_alerts ex_env_ok" "\<not> should_run_or_send_alerts ex_env_backup"
  by (simp_all add: should_run_or_send_alerts_def ex_env_backup_def ex_env_ok_def ex_env_def)

lemma process_alerts_ex:
  "\<exists>s'. process_alerts ex_env_ok ex_env_backup ex_state_two = Inr s'"
proof -
  obtain s1 where r: "run_alerts ex_env_ok ex_state_two = Inr s1"
    and a: "alerts s1 = [ex_observed\<lparr>uuid := Some ''U'', datetime := Some (naive 100),
            last_occurrence := Some (naive 1006), dismissed := Some True\<rparr>]"
    using run_alerts_ex by (cases "run_alerts ex_env_ok ex_state_two") auto
  have "\<exists>s2. expire_alerts ex_env_ok s1 = Inr s2"
    by (simp add: expire_alerts_def should_expire_alert_def a ex_observed_def DiskFail_def
        ex_base_def)
  then show ?thesis
    using r by (auto simp add: process_alerts_def Let_def)
qed

lemma process_alerts_blocked_ex:
  "map_sum id (\<lambda>s'. (alerts s', map (\<lambda>np. map snd (last_key_value_alerts (snd np))) (policies s')))
     (process_alerts ex_env_ok ex_env_backup ex_state_blocked) =
   Inr ([ex_stored],
        [[ex_stored\<lparr>last_occurrence := Some (naive 1005)\<rparr>], [], [], []])"
  by (simp add: process_alerts_def should_run_or_send_alerts_def run_alerts_def
      run_alert_source_def finish_alert_source_def expire_alerts_def should_expire_alert_def
      unblock_source_def is_blocked_def last_run_def handle_alert_def existing_alert_def
      same_identity_def assign_tracked_def assigned_objects_def object_refs_def
      stored_oids_def tracked_of_def
      ex_env_backup_def ex_env_ok_def ex_env_def ex_source_def ex_state_blocked_def
      ex_state_def initial_policies_def AlertPolicy_init_def
      ex_stored_def DiskFail_def ex_base_def naive_def Let_def)

text \<open>
  C6. Rollback when the role changes during a pass. If the preconditions hold at the
  start of the pass and fail at the second check, then a pass that reaches the second
  check (it reaches it unless running the sources or expiring the alerts raises) ends
  with the store that it started with, alert by alert, and it does not dispatch: nothing
  but log entries is emitted, so no backend is invoked, no event is published and no
  mail is sent, and every policy keeps its bucket and the uuids that it tracks. The
  alerts that the policies track are not part of the store: where a policy tracks an
  object that the round of a blocked or unavailable source reconciled, the tracked alert
  keeps the values that the round assigned to it.
\<close>

theorem process_alerts_rollback:
  assumes "should_run_or_send_alerts env" and "\<not> should_run_or_send_alerts env'"
  shows "(\<forall>s'. process_alerts env env' s = Inr s' \<longrightarrow>
            alerts s' = alerts s \<and> only_logged s s') \<and>
         (\<forall>e. process_alerts env env' s = Inl e \<longleftrightarrow>
            run_alerts env s = Inl e \<or>
            (\<exists>s1. run_alerts env s = Inr s1 \<and> expire_alerts env s1 = Inl e))"
proof -
  have p: "process_alerts env env' s =
      (case run_alerts env s of
         Inl e \<Rightarrow> Inl e
       | Inr s1 \<Rightarrow>
           (case expire_alerts env s1 of
              Inl e \<Rightarrow> Inl e
            | Inr s2 \<Rightarrow>
                Inr (s2\<lparr>alerts := alerts s,
                       alerts_oid := [next_oid s2 ..< next_oid s2 + length (alerts s)],
                       next_oid := next_oid s2 + length (alerts s)\<rparr>)))"
    using assms by (simp add: process_alerts_def Let_def split: sum.splits)
  have a: "\<forall>s'. process_alerts env env' s = Inr s' \<longrightarrow>
            alerts s' = alerts s \<and> only_logged s s'"
  proof (intro allI impI)
    fix s'
    assume "process_alerts env env' s = Inr s'"
    then obtain s1 s2 where r: "run_alerts env s = Inr s1"
      and x: "expire_alerts env s1 = Inr s2"
      and s': "s' = s2\<lparr>alerts := alerts s,
                       alerts_oid := [next_oid s2 ..< next_oid s2 + length (alerts s)],
                       next_oid := next_oid s2 + length (alerts s)\<rparr>"
      unfolding p by (auto split: sum.splits)
    have "only_logged s s2"
      using only_logged_trans [OF only_logged_run_alerts [OF r] only_logged_expire_alerts [OF x]] .
    then show "alerts s' = alerts s \<and> only_logged s s'"
      by (simp add: s' only_logged_def)
  qed
  have b: "\<forall>e. process_alerts env env' s = Inl e \<longleftrightarrow>
            run_alerts env s = Inl e \<or>
            (\<exists>s1. run_alerts env s = Inr s1 \<and> expire_alerts env s1 = Inl e)"
    unfolding p by (auto split: sum.splits)
  show ?thesis
    using a b by blast
qed

theorem process_alerts_rollback_witness:
  "should_run_or_send_alerts ex_env_ok \<and> \<not> should_run_or_send_alerts ex_env_backup \<and>
   map_sum id alerts (run_alerts ex_env_ok ex_state_two) =
     Inr [ex_observed\<lparr>uuid := Some ''U'', datetime := Some (naive 100),
            last_occurrence := Some (naive 1006), dismissed := Some True\<rparr>] \<and>
   map_sum id alerts (process_alerts ex_env_ok ex_env_backup ex_state_two) =
     Inr [ex_stored, ex_second] \<and>
   map_sum id (\<lambda>s'. (alerts s', map (\<lambda>np. map snd (last_key_value_alerts (snd np))) (policies s')))
     (process_alerts ex_env_ok ex_env_backup ex_state_blocked) =
   Inr ([ex_stored],
        [[ex_stored\<lparr>last_occurrence := Some (naive 1005)\<rparr>], [], [], []])"
proof -
  obtain s' where p: "process_alerts ex_env_ok ex_env_backup ex_state_two = Inr s'"
    using process_alerts_ex by blast
  have "alerts s' = alerts ex_state_two"
    using process_alerts_rollback [OF should_run_ex, of ex_state_two] p by blast
  moreover have "alerts ex_state_two = [ex_stored, ex_second]"
    by (simp add: ex_state_two_def)
  ultimately have "map_sum id alerts (process_alerts ex_env_ok ex_env_backup ex_state_two) =
     Inr [ex_stored, ex_second]"
    by (simp add: p)
  then show ?thesis
    using should_run_ex run_alerts_ex process_alerts_blocked_ex by blast
qed

section \<open>Properties of one-shot creation\<close>

lemma handle_alert_existing:
  "existing_alert store alert = Some e \<Longrightarrow>
   handle_alert store new_uuid now1 now2 alert =
     alert\<lparr>uuid := uuid e, datetime := datetime e, last_occurrence := Some now2,
           dismissed := dismissed e\<rparr>"
  by (simp add: handle_alert_def)

lemma handle_alert_fresh:
  "existing_alert store alert = None \<Longrightarrow>
   uuid (handle_alert store new_uuid now1 now2 alert) = Some new_uuid \<and>
   dismissed (handle_alert store new_uuid now1 now2 alert) = Some False"
  by (simp add: handle_alert_def)

lemma handle_alert_identity:
  "node (handle_alert store new_uuid now1 now2 alert) = node alert \<and>
   source (handle_alert store new_uuid now1 now2 alert) = source alert \<and>
   klass (handle_alert store new_uuid now1 now2 alert) = klass alert \<and>
   key (handle_alert store new_uuid now1 now2 alert) = key alert"
  by (simp add: handle_alert_def split: option.splits)

lemma alerts_send_alerts: "alerts (send_alerts env s) = alerts s"
  by (simp add: send_alerts_def Let_def)

lemma oneshot_ex:
  "class_by_name ex_env_oneshot ''PoolUpgraded'' = Some PoolUpgraded"
  "is_one_shot PoolUpgraded"
  "oneshot_class_create ex_env_oneshot PoolUpgraded [(''pool'', ''tank'')] =
     Some (Alert_init ex_env PoolUpgraded [(''pool'', ''tank'')] None)"
  "klass (Alert_init ex_env PoolUpgraded [(''pool'', ''tank'')] None) = PoolUpgraded"
  "key (Alert_init ex_env PoolUpgraded [(''pool'', ''tank'')] None) = ''tank''"
  by (simp_all add: ex_env_oneshot_def ex_env_def PoolUpgraded_def ex_base_def Alert_init_def)

lemma oneshot_create_ex_peer:
  "map_sum id (\<lambda>s'. map (\<lambda>a. (uuid a, node a, klass a, key a, dismissed a)) (alerts s'))
     (oneshot_create ex_env_oneshot ''PoolUpgraded'' [(''pool'', ''tank'')]
        (ex_state\<lparr>alerts := [ex_oneshot_peer]\<rparr>)) =
   Inr [(Some ''P'', Some ''B'', PoolUpgraded, ''tank'', Some True),
        (Some ''u'', Some ''A'', PoolUpgraded, ''tank'', Some False)]"
  by (simp add: oneshot_create_def oneshot_ex alerts_send_alerts handle_alert_def
      existing_alert_def same_identity_def Alert_init_def Let_def
      ex_state_def ex_oneshot_peer_def ex_oneshot_local_def ex_env_oneshot_def ex_env_def)

text \<open>
  C2 (as amended). A one-shot creation stamps the created alert with the empty source
  and with the local node and reconciles it like a polled alert, on (node, source, class,
  key). When the store holds an alert of the local node and of the empty source with the
  class and the key of the created alert, the created alert takes the uuid, the dismissed
  flag and the first-seen timestamp of the first such alert; when it holds none, the
  created alert gets a fresh uuid and is not dismissed, whatever alerts of the same class
  and key the store holds for another node or another source. The store then holds the
  created alert last, and no other alert with its uuid.
\<close>

theorem oneshot_create_reconciles:
  assumes "class_by_name env kn = Some k" and "is_one_shot k"
    and "oneshot_class_create env k cargs = Some created"
  shows "\<exists>s' alert.
     oneshot_create env kn cargs s = Inr s' \<and>
     alerts s' = filter (\<lambda>a. uuid a \<noteq> uuid alert) (alerts s) @ [alert] \<and>
     node alert = Some (self_node s) \<and> source alert = Some [] \<and>
     klass alert = klass created \<and> key alert = key created \<and>
     (\<forall>e. List.find (\<lambda>a. node a = Some (self_node s) \<and> source a = Some [] \<and>
                          klass a = klass created \<and> key a = key created) (alerts s) = Some e \<longrightarrow>
          uuid alert = uuid e \<and> dismissed alert = dismissed e \<and> datetime alert = datetime e) \<and>
     ((\<forall>a \<in> set (alerts s). \<not> (node a = Some (self_node s) \<and> source a = Some [] \<and>
                          klass a = klass created \<and> key a = key created)) \<longrightarrow>
          uuid alert = Some (uuid4 env (ticks s)) \<and> dismissed alert = Some False)"
proof -
  let ?stamped = "created\<lparr>source := Some [], node := Some (self_node s)\<rparr>"
  let ?alert = "handle_alert (alerts s) (uuid4 env (ticks s))
                  (utcnow env (ticks s)) (utcnow env (Suc (ticks s))) ?stamped"
  let ?next = "s\<lparr>alerts := filter (\<lambda>a. uuid a \<noteq> uuid ?alert) (alerts s) @ [?alert],
               ticks := Suc (Suc (ticks s)),
               alerts_oid := stored_oids (\<lambda>a. uuid a \<noteq> uuid ?alert) s @ [next_oid s],
               next_oid := Suc (next_oid s)\<rparr>"
  have r: "oneshot_create env kn cargs s = Inr (send_alerts env ?next)"
    using assms by (simp add: oneshot_create_def Let_def)
  have a: "alerts (send_alerts env ?next) =
      filter (\<lambda>a. uuid a \<noteq> uuid ?alert) (alerts s) @ [?alert]"
    by (simp add: alerts_send_alerts)
  have i: "node ?alert = Some (self_node s) \<and> source ?alert = Some [] \<and>
     klass ?alert = klass created \<and> key ?alert = key created"
    using handle_alert_identity [of "alerts s" "uuid4 env (ticks s)" "utcnow env (ticks s)"
        "utcnow env (Suc (ticks s))" ?stamped]
    by simp
  have same: "(\<lambda>a. same_identity a ?stamped) =
      (\<lambda>a. node a = Some (self_node s) \<and> source a = Some [] \<and>
            klass a = klass created \<and> key a = key created)"
    by (simp add: same_identity_def)
  have m: "\<forall>e. List.find (\<lambda>a. node a = Some (self_node s) \<and> source a = Some [] \<and>
                          klass a = klass created \<and> key a = key created) (alerts s) = Some e \<longrightarrow>
          uuid ?alert = uuid e \<and> dismissed ?alert = dismissed e \<and> datetime ?alert = datetime e"
  proof (intro allI impI)
    fix e
    assume "List.find (\<lambda>a. node a = Some (self_node s) \<and> source a = Some [] \<and>
                          klass a = klass created \<and> key a = key created) (alerts s) = Some e"
    then have "existing_alert (alerts s) ?stamped = Some e"
      by (simp only: existing_alert_find same)
    then show "uuid ?alert = uuid e \<and> dismissed ?alert = dismissed e \<and>
        datetime ?alert = datetime e"
      by (simp add: handle_alert_existing)
  qed
  have f: "(\<forall>a \<in> set (alerts s). \<not> (node a = Some (self_node s) \<and> source a = Some [] \<and>
                          klass a = klass created \<and> key a = key created)) \<longrightarrow>
          uuid ?alert = Some (uuid4 env (ticks s)) \<and> dismissed ?alert = Some False"
  proof
    assume "\<forall>a \<in> set (alerts s). \<not> (node a = Some (self_node s) \<and> source a = Some [] \<and>
                          klass a = klass created \<and> key a = key created)"
    then have "\<forall>a \<in> set (alerts s). \<not> same_identity a ?stamped"
      by (simp add: same_identity_def)
    then have "existing_alert (alerts s) ?stamped = None"
      by (simp only: existing_alert_None)
    then show "uuid ?alert = Some (uuid4 env (ticks s)) \<and> dismissed ?alert = Some False"
      by (rule handle_alert_fresh)
  qed
  show ?thesis
    using r a i m f by blast
qed

theorem oneshot_create_reconciles_witness:
  "class_by_name ex_env_oneshot ''PoolUpgraded'' = Some PoolUpgraded \<and>
   is_one_shot PoolUpgraded \<and>
   oneshot_class_create ex_env_oneshot PoolUpgraded [(''pool'', ''tank'')] =
     Some (Alert_init ex_env PoolUpgraded [(''pool'', ''tank'')] None) \<and>
   (\<exists>s' alert.
      oneshot_create ex_env_oneshot ''PoolUpgraded'' [(''pool'', ''tank'')]
        (ex_state\<lparr>alerts := [ex_oneshot_peer, ex_oneshot_local]\<rparr>) = Inr s' \<and>
      alerts s' = [ex_oneshot_peer, alert] \<and>
      uuid alert = Some ''L'' \<and> dismissed alert = Some True \<and>
      datetime alert = Some (naive 10) \<and> node alert = Some ''A'')"
proof -
  let ?s = "ex_state\<lparr>alerts := [ex_oneshot_peer, ex_oneshot_local]\<rparr>"
  let ?created = "Alert_init ex_env PoolUpgraded [(''pool'', ''tank'')] None"
  have fnd: "List.find (\<lambda>a. node a = Some (self_node ?s) \<and> source a = Some [] \<and>
      klass a = klass ?created \<and> key a = key ?created) (alerts ?s) = Some ex_oneshot_local"
    by (simp add: oneshot_ex ex_state_def ex_oneshot_peer_def ex_oneshot_local_def)
  obtain s' alert where
    r: "oneshot_create ex_env_oneshot ''PoolUpgraded'' [(''pool'', ''tank'')] ?s = Inr s'"
    and a: "alerts s' = filter (\<lambda>a. uuid a \<noteq> uuid alert) (alerts ?s) @ [alert]"
    and n: "node alert = Some (self_node ?s)"
    and m: "\<forall>e. List.find (\<lambda>a. node a = Some (self_node ?s) \<and> source a = Some [] \<and>
                klass a = klass ?created \<and> key a = key ?created) (alerts ?s) = Some e \<longrightarrow>
             uuid alert = uuid e \<and> dismissed alert = dismissed e \<and>
             datetime alert = datetime e"
    using oneshot_create_reconciles [OF oneshot_ex(1,2,3), of ?s] by blast
  have u: "uuid alert = uuid ex_oneshot_local \<and> dismissed alert = dismissed ex_oneshot_local \<and>
      datetime alert = datetime ex_oneshot_local"
    using m fnd by blast
  then have v: "uuid alert = Some ''L'' \<and> dismissed alert = Some True \<and>
      datetime alert = Some (naive 10)"
    by (simp add: ex_oneshot_local_def)
  have "alerts s' = [ex_oneshot_peer, alert]"
    using a v by (simp add: ex_oneshot_peer_def ex_oneshot_local_def)
  moreover have "node alert = Some ''A''"
    using n by (simp add: ex_state_def)
  ultimately show ?thesis
    using r v oneshot_ex(1,2,3) by blast
qed

text \<open>
  The property as the specification states it fails: with a stored, dismissed alert of node B, a creation
  on node A of an alert of the same class and key yields a second alert, with a fresh
  uuid and not dismissed.
\<close>

theorem oneshot_create_other_node_counterexample:
  "klass ex_oneshot_peer = PoolUpgraded \<and> key ex_oneshot_peer = ''tank'' \<and>
   uuid ex_oneshot_peer = Some ''P'' \<and> dismissed ex_oneshot_peer = Some True \<and>
   node ex_oneshot_peer = Some ''B'' \<and> self_node ex_state = ''A'' \<and>
   map_sum id (\<lambda>s'. map (\<lambda>a. (uuid a, node a, klass a, key a, dismissed a)) (alerts s'))
     (oneshot_create ex_env_oneshot ''PoolUpgraded'' [(''pool'', ''tank'')]
        (ex_state\<lparr>alerts := [ex_oneshot_peer]\<rparr>)) =
   Inr [(Some ''P'', Some ''B'', PoolUpgraded, ''tank'', Some True),
        (Some ''u'', Some ''A'', PoolUpgraded, ''tank'', Some False)]"
  by (simp add: oneshot_create_ex_peer)
     (simp add: ex_oneshot_peer_def ex_oneshot_local_def ex_state_def)

end
